theory Spec2Isabelle
  imports Complex_Main "HOL-Library.Word" "HOL-Library.Stream"
begin

text \<open>
  The notebook \<^verbatim>\<open>gan.ipynb\<close> has four code cells: it loads and normalises the images,
  builds a discriminator \<open>D\<close>, a generator \<open>G\<close> and the composite \<^verbatim>\<open>full_gan\<close>, trains
  them for 30000 epochs, and draws 9 samples. The definitions below follow the cells line
  by line. What the notebook calls and does not define (numpy's random generator, the
  optimiser, Python's number formatting) is a parameter of the model or a supply of
  values; every call the notebook makes is recorded in a trace. The layers and their
  forward pass are the framework's, as its documentation gives them.
\<close>

section \<open>Cell 1: loading and normalising the data\<close>

text \<open>
  \<^verbatim>\<open>X_train = (X_train - np.min(X_train)) / (np.max(X_train) - np.min(X_train))\<close>.
  The loaded array has shape \<open>(n_imgs, n_rows, n_cols)\<close> and entries of type
  \<^verbatim>\<open>uint8\<close>, kept in row-major order. \<^verbatim>\<open>np.min\<close> and \<^verbatim>\<open>np.max\<close> reduce over all
  entries and raise \<^verbatim>\<open>ValueError\<close> on an array without entries. Both subtractions are
  8-bit subtractions. The division is numpy's true division: it raises nothing, a zero
  divisor gives NaN for a zero numerator and infinity otherwise, and the quotient of
  two 8-bit values is the binary64 float nearest to it.
\<close>

datatype pyerr = ValueError | IndexError | AssertionError

record 'a ndarray3 =
  n_imgs :: nat
  n_rows :: nat
  n_cols :: nat
  elems :: "'a list"

text \<open>
  A float is a real number that its format represents, an infinity, or NaN; the two zeros
  are not told apart. Rounding to a binary format with \<open>p\<close> fraction bits, least
  exponent \<open>emin\<close> and overflow at \<open>2 ^ emax\<close> takes the nearest multiple of the unit in
  the last place of the number's binade (the binade of \<open>emin\<close> for subnormal numbers),
  ties to the even multiple, and gives an infinity when that multiple reaches
  \<open>2 ^ emax\<close>.
\<close>

datatype npfloat = Finite real | PosInf | NegInf | NaN

definition round_half_even :: "real \<Rightarrow> int" where
  "round_half_even x =
     (if x - of_int \<lfloor>x\<rfloor> < 1 / 2 then \<lfloor>x\<rfloor>
      else if 1 / 2 < x - of_int \<lfloor>x\<rfloor> then \<lfloor>x\<rfloor> + 1
      else if even \<lfloor>x\<rfloor> then \<lfloor>x\<rfloor> else \<lfloor>x\<rfloor> + 1)"

definition ieee_round :: "nat \<Rightarrow> int \<Rightarrow> nat \<Rightarrow> real \<Rightarrow> npfloat" where
  "ieee_round p emin emax x =
     (if x = 0 then Finite 0
      else let e = max \<lfloor>log 2 \<bar>x\<bar>\<rfloor> emin;
               ulp = 2 powr (of_int e - of_nat p);
               y = of_int (round_half_even (\<bar>x\<bar> / ulp)) * ulp
           in if 2 ^ emax \<le> y then (if 0 < x then PosInf else NegInf)
              else Finite (sgn x * y))"

definition float64 :: "real \<Rightarrow> npfloat" where
  "float64 = ieee_round 52 (- 1022) 1024"

definition float32 :: "real \<Rightarrow> npfloat" where
  "float32 = ieee_round 23 (- 126) 128"

definition true_divide :: "8 word \<Rightarrow> 8 word \<Rightarrow> npfloat" where
  "true_divide a b =
     (if b = 0 then (if a = 0 then NaN else PosInf)
      else float64 (real (unat a) / real (unat b)))"

definition np_min :: "8 word list \<Rightarrow> 8 word" where
  "np_min xs = fold min (tl xs) (hd xs)"

definition np_max :: "8 word list \<Rightarrow> 8 word" where
  "np_max xs = fold max (tl xs) (hd xs)"

definition normalise :: "8 word ndarray3 \<Rightarrow> pyerr + npfloat ndarray3" where
  "normalise X =
     (if elems X = [] then Inl ValueError
      else Inr \<lparr> n_imgs = n_imgs X, n_rows = n_rows X, n_cols = n_cols X,
                 elems = map (\<lambda>x. true_divide (x - np_min (elems X))
                                      (np_max (elems X) - np_min (elems X)))
                             (elems X) \<rparr>)"

section \<open>Cell 2: the model builder\<close>

text \<open>
  \<^verbatim>\<open>img_shape = (X_train.shape[1], X_train.shape[2])\<close>,
  \<^verbatim>\<open>res = X_train.shape[1] * X_train.shape[2]\<close>,
  \<^verbatim>\<open>noise_res = int(res / 4)\<close>.
  Python's \<^verbatim>\<open>int(res / k)\<close> on a non-negative integer is the truncated quotient,
  written \<open>div\<close> here (the float division is exact up to rounding that \<^verbatim>\<open>int\<close> undoes
  for every \<open>res\<close> below \<open>2 ^ 53\<close>, more entries than an array can hold).
\<close>

definition img_shape :: "nat \<Rightarrow> nat \<Rightarrow> nat list" where
  "img_shape H W = [H, W]"

definition res :: "nat \<Rightarrow> nat \<Rightarrow> nat" where
  "res H W = H * W"

definition noise_res :: "nat \<Rightarrow> nat \<Rightarrow> nat" where
  "noise_res H W = res H W div 4"

datatype activation = Linear | Sigmoid

datatype layer =
    Flatten
  | Dense nat activation
  | LeakyReLU
  | MaxoutDense nat
  | Reshape "nat list"

record sequential =
  input_shape :: "nat list"
  layers :: "layer list"

definition D_model :: "nat \<Rightarrow> nat \<Rightarrow> sequential" where
  "D_model H W =
     \<lparr> input_shape = img_shape H W,
       layers = [Flatten,
                 Dense (res H W div 2) Linear, LeakyReLU,
                 Dense (res H W div 4) Linear, LeakyReLU,
                 Dense (res H W div 8) Linear, LeakyReLU,
                 Dense 1 Sigmoid] \<rparr>"

definition G_model :: "nat \<Rightarrow> nat \<Rightarrow> sequential" where
  "G_model H W =
     \<lparr> input_shape = [noise_res H W],
       layers = [Dense (res H W div 4) Linear, LeakyReLU,
                 Dense (res H W div 2) Linear, LeakyReLU,
                 Dense (res H W) Linear, LeakyReLU,
                 MaxoutDense (res H W),
                 Reshape (img_shape H W)] \<rparr>"

text \<open>
  The shape each layer reports for one sample (the batch axis left out), as the
  framework computes it while a model is assembled. \<open>Flatten\<close> multiplies the axes out
  and raises \<^verbatim>\<open>ValueError\<close> when one of them is 0. \<open>Dense\<close> replaces the last axis; it
  asserts that its input has one and that it is not 0. An activation keeps the shape.
  \<open>MaxoutDense\<close> asserts that its input is a vector. \<open>Reshape\<close> raises \<^verbatim>\<open>ValueError\<close>
  unless the number of entries stays the same.
\<close>

fun layer_output_shape :: "layer \<Rightarrow> nat list \<Rightarrow> pyerr + nat list" where
  "layer_output_shape Flatten s =
     (if 0 \<in> set s then Inl ValueError else Inr [prod_list s])"
| "layer_output_shape (Dense u a) s =
     (if s = [] \<or> last s = 0 then Inl AssertionError else Inr (butlast s @ [u]))"
| "layer_output_shape LeakyReLU s = Inr s"
| "layer_output_shape (MaxoutDense u) s =
     (if length s = 1 then Inr [u] else Inl AssertionError)"
| "layer_output_shape (Reshape t) s =
     (if prod_list s = prod_list t then Inr t else Inl ValueError)"

fun output_shape_from :: "layer list \<Rightarrow> nat list \<Rightarrow> pyerr + nat list" where
  "output_shape_from [] s = Inr s"
| "output_shape_from (l # ls) s =
     (case layer_output_shape l s of
        Inl e \<Rightarrow> Inl e
      | Inr s' \<Rightarrow> output_shape_from ls s')"

definition output_shape :: "sequential \<Rightarrow> pyerr + nat list" where
  "output_shape m = output_shape_from (layers m) (input_shape m)"

section \<open>The forward pass of a model\<close>

text \<open>
  A layer that has been built holds its parameters: a \<open>Dense\<close> layer a kernel, given
  here by its columns (one per unit), and a bias; a \<open>MaxoutDense\<close> layer one kernel and
  one bias for each of its 4 features (the default \<^verbatim>\<open>nb_feature\<close>). On one sample,
  \<open>Dense\<close> returns \<^verbatim>\<open>activation(dot(input, kernel) + bias)\<close>, \<open>LeakyReLU\<close> maps every entry,
  \<open>MaxoutDense\<close> takes the entry-wise maximum of its features' linear maps, and
  \<open>Flatten\<close> and \<open>Reshape\<close> keep the entries in their order. The arithmetic of the
  framework's backend (the conversion of an input to its float type, the inner product,
  the addition of the bias, the leaky rectifier with slope 0.3, the maximum and the
  sigmoid) is a parameter. A sample is held as its shape and its entries in row-major
  order. All \<open>Dense\<close> layers of the notebook get vectors, and the forward pass is given
  for such layers.
\<close>

type_synonym 'v tensor = "nat list \<times> 'v list"

record 'v arith =
  k_cast :: "'v \<Rightarrow> 'v"
  k_dot :: "'v list \<Rightarrow> 'v list \<Rightarrow> 'v"
  k_bias_add :: "'v \<Rightarrow> 'v \<Rightarrow> 'v"
  k_leaky_relu :: "'v \<Rightarrow> 'v"
  k_max :: "'v \<Rightarrow> 'v \<Rightarrow> 'v"
  k_sigmoid :: "'v \<Rightarrow> 'v"

datatype 'v built =
    BFlatten
  | BDense "'v list list" "'v list" activation
  | BLeakyReLU
  | BMaxoutDense "('v list list \<times> 'v list) list"
  | BReshape "nat list"

definition dense :: "'v arith \<Rightarrow> 'v list list \<Rightarrow> 'v list \<Rightarrow> 'v list \<Rightarrow> 'v list" where
  "dense ar K b x = map2 (\<lambda>col bj. k_bias_add ar (k_dot ar x col) bj) K b"

fun activate :: "'v arith \<Rightarrow> activation \<Rightarrow> 'v list \<Rightarrow> 'v list" where
  "activate ar Linear y = y"
| "activate ar Sigmoid y = map (k_sigmoid ar) y"

definition maxout :: "'v arith \<Rightarrow> 'v list list \<Rightarrow> 'v list" where
  "maxout ar ys =
     (case ys of [] \<Rightarrow> [] | y # rest \<Rightarrow> fold (\<lambda>v acc. map2 (k_max ar) acc v) rest y)"

fun call :: "'v arith \<Rightarrow> 'v built \<Rightarrow> 'v tensor \<Rightarrow> 'v tensor" where
  "call ar BFlatten (s, x) = ([prod_list s], x)"
| "call ar (BDense K b act) (s, x) =
     (butlast s @ [length K], activate ar act (dense ar K b x))"
| "call ar BLeakyReLU (s, x) = (s, map (k_leaky_relu ar) x)"
| "call ar (BMaxoutDense fs) (s, x) =
     (let y = maxout ar (map (\<lambda>(K, b). dense ar K b x) fs) in ([length y], y))"
| "call ar (BReshape t) (s, x) = (t, x)"

definition forward :: "'v arith \<Rightarrow> 'v built list \<Rightarrow> 'v tensor \<Rightarrow> 'v tensor" where
  "forward ar ls t = fold (call ar) ls (fst t, map (k_cast ar) (snd t))"

text \<open>
  \<open>predict\<close> on one sample that is a vector: the entries of the output of the forward pass.
\<close>

definition forward_sample :: "'v arith \<Rightarrow> 'v built list \<Rightarrow> 'v list \<Rightarrow> 'v list" where
  "forward_sample ar ls z = snd (forward ar ls ([length z], z))"

text \<open>
  The parameters a layer creates when it is built on an input of shape \<open>s\<close>, and those
  of a list of layers assembled from an input shape on.
\<close>

fun built_for :: "layer \<Rightarrow> nat list \<Rightarrow> 'v built \<Rightarrow> bool" where
  "built_for Flatten s BFlatten = True"
| "built_for (Dense u a) s (BDense K b a') =
     (a' = a \<and> length s = 1 \<and> length K = u \<and> length b = u \<and>
      list_all (\<lambda>col. length col = prod_list s) K)"
| "built_for LeakyReLU s BLeakyReLU = True"
| "built_for (MaxoutDense u) s (BMaxoutDense fs) =
     (length fs = 4 \<and>
      list_all (\<lambda>(K, b). length K = u \<and> length b = u \<and>
                  list_all (\<lambda>col. length col = prod_list s) K) fs)"
| "built_for (Reshape t) s (BReshape t') = (t' = t)"
| "built_for l s b = False"

fun weights_of :: "layer list \<Rightarrow> nat list \<Rightarrow> 'v built list \<Rightarrow> bool" where
  "weights_of [] s bs = (bs = [])"
| "weights_of (l # ls) s [] = False"
| "weights_of (l # ls) s (b # bs) =
     (built_for l s b \<and>
      (case layer_output_shape l s of
         Inl e \<Rightarrow> False
       | Inr s' \<Rightarrow> weights_of ls s' bs))"

section \<open>The backend's arithmetic on 32-bit floats\<close>

text \<open>
  Each operation on finite values is the exact operation followed by rounding to
  binary32; the library's \<open>exp\<close> is taken as correctly rounded. NaN propagates.
  The sigmoid is computed as \<^verbatim>\<open>1 / (1 + exp(-x))\<close>, the inner product by adding the
  products from the left, and 0.3 is the float nearest to it.
\<close>

fun fneg :: "npfloat \<Rightarrow> npfloat" where
  "fneg (Finite x) = Finite (- x)"
| "fneg PosInf = NegInf"
| "fneg NegInf = PosInf"
| "fneg NaN = NaN"

fun cast32 :: "npfloat \<Rightarrow> npfloat" where
  "cast32 (Finite x) = float32 x"
| "cast32 v = v"

fun fadd32 :: "npfloat \<Rightarrow> npfloat \<Rightarrow> npfloat" where
  "fadd32 NaN v = NaN"
| "fadd32 v NaN = NaN"
| "fadd32 PosInf NegInf = NaN"
| "fadd32 NegInf PosInf = NaN"
| "fadd32 PosInf v = PosInf"
| "fadd32 v PosInf = PosInf"
| "fadd32 NegInf v = NegInf"
| "fadd32 v NegInf = NegInf"
| "fadd32 (Finite a) (Finite b) = float32 (a + b)"

fun fmul32 :: "npfloat \<Rightarrow> npfloat \<Rightarrow> npfloat" where
  "fmul32 NaN v = NaN"
| "fmul32 v NaN = NaN"
| "fmul32 (Finite a) (Finite b) = float32 (a * b)"
| "fmul32 (Finite a) PosInf = (if a = 0 then NaN else if 0 < a then PosInf else NegInf)"
| "fmul32 (Finite a) NegInf = (if a = 0 then NaN else if 0 < a then NegInf else PosInf)"
| "fmul32 PosInf (Finite b) = (if b = 0 then NaN else if 0 < b then PosInf else NegInf)"
| "fmul32 NegInf (Finite b) = (if b = 0 then NaN else if 0 < b then NegInf else PosInf)"
| "fmul32 PosInf PosInf = PosInf"
| "fmul32 PosInf NegInf = NegInf"
| "fmul32 NegInf PosInf = NegInf"
| "fmul32 NegInf NegInf = PosInf"

fun fdiv32 :: "npfloat \<Rightarrow> npfloat \<Rightarrow> npfloat" where
  "fdiv32 NaN v = NaN"
| "fdiv32 v NaN = NaN"
| "fdiv32 (Finite a) (Finite b) =
     (if b = 0 then (if a = 0 then NaN else if 0 < a then PosInf else NegInf)
      else float32 (a / b))"
| "fdiv32 (Finite a) PosInf = Finite 0"
| "fdiv32 (Finite a) NegInf = Finite 0"
| "fdiv32 PosInf (Finite b) = (if 0 \<le> b then PosInf else NegInf)"
| "fdiv32 NegInf (Finite b) = (if 0 \<le> b then NegInf else PosInf)"
| "fdiv32 v w = NaN"

fun fexp32 :: "npfloat \<Rightarrow> npfloat" where
  "fexp32 (Finite x) = float32 (exp x)"
| "fexp32 PosInf = PosInf"
| "fexp32 NegInf = Finite 0"
| "fexp32 NaN = NaN"

definition sigmoid32 :: "npfloat \<Rightarrow> npfloat" where
  "sigmoid32 v = fdiv32 (Finite 1) (fadd32 (Finite 1) (fexp32 (fneg v)))"

definition alpha32 :: real where
  "alpha32 = 10066330 / 33554432"

fun leaky32 :: "npfloat \<Rightarrow> npfloat" where
  "leaky32 (Finite x) = (if 0 \<le> x then Finite x else float32 (alpha32 * x))"
| "leaky32 v = v"

fun max32 :: "npfloat \<Rightarrow> npfloat \<Rightarrow> npfloat" where
  "max32 NaN v = NaN"
| "max32 v NaN = NaN"
| "max32 PosInf v = PosInf"
| "max32 v PosInf = PosInf"
| "max32 NegInf v = v"
| "max32 v NegInf = v"
| "max32 (Finite a) (Finite b) = Finite (max a b)"

definition dot32 :: "npfloat list \<Rightarrow> npfloat list \<Rightarrow> npfloat" where
  "dot32 xs ys = foldl fadd32 (Finite 0) (map2 fmul32 xs ys)"

definition float32_arith :: "npfloat arith" where
  "float32_arith =
     \<lparr> k_cast = cast32, k_dot = dot32, k_bias_add = fadd32,
       k_leaky_relu = leaky32, k_max = max32, k_sigmoid = sigmoid32 \<rparr>"

section \<open>The framework's state\<close>

text \<open>
  The two networks own their parameters; the composite \<^verbatim>\<open>full_gan\<close> has none of its
  own and shares theirs. A network's parameters are a value of type \<open>'w\<close>, the state of
  the one \<^verbatim>\<open>Adam\<close> instance given to both \<^verbatim>\<open>compile\<close> calls a value of type \<open>'o\<close>.
\<close>

datatype net = Dnet | Gnet

datatype ('a, 'z, 'm) event =
    Summary net
  | CompileD
  | SetTrainableD bool
  | BuildGan
  | CompileGan
  | PredictG "'z list list" "'a list list"
  | TrainD "'a list list" "real list" "'m \<times> 'm"
  | TrainGan "'z list list" "real list" "'m \<times> 'm"
  | Printed string

text \<open>
  What the script calls into and does not define: the forward pass of \<open>G\<close> on one
  noise vector, the optimiser's step for a batch (the parameters it proposes, its new
  state, and the pair loss, accuracy), the floating-point constants \<^verbatim>\<open>0.5\<close> and
  \<^verbatim>\<open>100\<close>, and the conversions \<^verbatim>\<open>%f\<close> and \<^verbatim>\<open>%.2f\<close>. Losses and accuracies are
  values of a type \<open>'m\<close> of which only \<open>+\<close> and \<open>*\<close> are used, with no law assumed.
\<close>

record ('w, 'o, 'a, 'z, 'm) env =
  forward_G :: "'w \<Rightarrow> 'z list \<Rightarrow> 'a list"
  fit_D :: "(net \<Rightarrow> 'w) \<Rightarrow> 'o \<Rightarrow> 'a list list \<Rightarrow> real list \<Rightarrow> (net \<Rightarrow> 'w) \<times> 'o \<times> ('m \<times> 'm)"
  fit_GAN :: "(net \<Rightarrow> 'w) \<Rightarrow> 'o \<Rightarrow> 'z list list \<Rightarrow> real list \<Rightarrow> (net \<Rightarrow> 'w) \<times> 'o \<times> ('m \<times> 'm)"
  half :: 'm
  hundred :: 'm
  fmt_f :: "'m \<Rightarrow> string"
  fmt_2f :: "'m \<Rightarrow> string"

record ('w, 'o, 'a, 'z, 'm) state =
  weights :: "net \<Rightarrow> 'w"
  optimizer :: 'o
  trainable :: "net \<Rightarrow> bool"
  D_collected :: "net set"
  GAN_collected :: "net set"
  rand_ints :: "nat stream"
  rand_normals :: "'z stream"
  dloss :: "('m \<times> 'm) option"
  gloss :: "('m \<times> 'm) option"
  trace :: "('a, 'z, 'm) event list"

definition initial_state ::
  "(net \<Rightarrow> 'w) \<Rightarrow> 'o \<Rightarrow> nat stream \<Rightarrow> 'z stream \<Rightarrow> ('w, 'o, 'a, 'z, 'm) state" where
  "initial_state w0 o0 ints normals =
     \<lparr> weights = w0, optimizer = o0, trainable = (\<lambda>_. True),
       D_collected = {}, GAN_collected = {},
       rand_ints = ints, rand_normals = normals,
       dloss = None, gloss = None, trace = [] \<rparr>"

text \<open>
  \<^verbatim>\<open>compile\<close> collects the parameters that are trainable when it is called; a later
  assignment to \<^verbatim>\<open>trainable\<close> does not change what a compiled model updates.
\<close>

definition trainable_weights :: "('w, 'o, 'a, 'z, 'm) state \<Rightarrow> net list \<Rightarrow> net set" where
  "trainable_weights s nets = set (filter (trainable s) nets)"

definition summary :: "net \<Rightarrow> ('w, 'o, 'a, 'z, 'm) state \<Rightarrow> ('w, 'o, 'a, 'z, 'm) state" where
  "summary k s = s\<lparr> trace := trace s @ [Summary k] \<rparr>"

definition compile_D :: "('w, 'o, 'a, 'z, 'm) state \<Rightarrow> ('w, 'o, 'a, 'z, 'm) state" where
  "compile_D s = s\<lparr> D_collected := trainable_weights s [Dnet], trace := trace s @ [CompileD] \<rparr>"

definition set_D_trainable :: "bool \<Rightarrow> ('w, 'o, 'a, 'z, 'm) state \<Rightarrow> ('w, 'o, 'a, 'z, 'm) state" where
  "set_D_trainable b s =
     s\<lparr> trainable := (trainable s)(Dnet := b), trace := trace s @ [SetTrainableD b] \<rparr>"

definition make_full_gan :: "('w, 'o, 'a, 'z, 'm) state \<Rightarrow> ('w, 'o, 'a, 'z, 'm) state" where
  "make_full_gan s = s\<lparr> trace := trace s @ [BuildGan] \<rparr>"

definition compile_full_gan :: "('w, 'o, 'a, 'z, 'm) state \<Rightarrow> ('w, 'o, 'a, 'z, 'm) state" where
  "compile_full_gan s =
     s\<lparr> GAN_collected := trainable_weights s [Gnet, Dnet], trace := trace s @ [CompileGan] \<rparr>"

definition build_models ::
  "nat \<Rightarrow> nat \<Rightarrow> (net \<Rightarrow> 'w) \<Rightarrow> 'o \<Rightarrow> nat stream \<Rightarrow> 'z stream \<Rightarrow> pyerr + ('w, 'o, 'a, 'z, 'm) state" where
  "build_models H W w0 o0 ints normals =
     (case output_shape (D_model H W) of
        Inl e \<Rightarrow> Inl e
      | Inr d_out \<Rightarrow>
          let s1 = compile_D (summary Dnet (initial_state w0 o0 ints normals)) in
          (case output_shape (G_model H W) of
             Inl e \<Rightarrow> Inl e
           | Inr g_out \<Rightarrow>
               let s2 = set_D_trainable False (summary Gnet s1) in
               if g_out \<noteq> input_shape (D_model H W) then Inl ValueError
               else Inr (compile_full_gan (make_full_gan s2))))"


section \<open>Calls into numpy and the framework\<close>

text \<open>
  The global random generator is a supply of draws: \<^verbatim>\<open>np.random.randint(high, size=k)\<close>
  takes \<open>k\<close> of the integer draws, each reduced below \<open>high\<close>, and raises
  \<^verbatim>\<open>ValueError\<close> when \<open>high\<close> is 0; \<^verbatim>\<open>np.random.normal(size=(k, n))\<close> takes \<open>k\<close> rows
  of \<open>n\<close> draws.
\<close>

definition np_random_randint ::
  "nat \<Rightarrow> nat \<Rightarrow> ('w, 'o, 'a, 'z, 'm) state \<Rightarrow> pyerr + (nat list \<times> ('w, 'o, 'a, 'z, 'm) state)" where
  "np_random_randint high k s =
     (if high = 0 then Inl ValueError
      else Inr (map (\<lambda>v. v mod high) (stake k (rand_ints s)),
                s\<lparr> rand_ints := sdrop k (rand_ints s) \<rparr>))"

fun take_rows :: "nat \<Rightarrow> nat \<Rightarrow> 'z stream \<Rightarrow> 'z list list" where
  "take_rows 0 n xs = []"
| "take_rows (Suc k) n xs = stake n xs # take_rows k n (sdrop n xs)"

definition np_random_normal ::
  "nat \<Rightarrow> nat \<Rightarrow> ('w, 'o, 'a, 'z, 'm) state \<Rightarrow> 'z list list \<times> ('w, 'o, 'a, 'z, 'm) state" where
  "np_random_normal k n s =
     (take_rows k n (rand_normals s), s\<lparr> rand_normals := sdrop (k * n) (rand_normals s) \<rparr>)"

definition np_ones :: "nat \<Rightarrow> real list" where
  "np_ones k = replicate k 1"

definition np_zeros :: "nat \<Rightarrow> real list" where
  "np_zeros k = replicate k 0"

text \<open>\<^verbatim>\<open>X_train[real_idxs]\<close>: the images at the given positions, \<^verbatim>\<open>IndexError\<close> when one is out of range.\<close>

definition image_at :: "'a ndarray3 \<Rightarrow> nat \<Rightarrow> 'a list" where
  "image_at X i = take (n_rows X * n_cols X) (drop (i * (n_rows X * n_cols X)) (elems X))"

definition fancy_index :: "'a ndarray3 \<Rightarrow> nat list \<Rightarrow> pyerr + 'a list list" where
  "fancy_index X idxs =
     (if list_all (\<lambda>i. i < n_imgs X) idxs then Inr (map (image_at X) idxs)
      else Inl IndexError)"

text \<open>\<^verbatim>\<open>G.predict(noise)\<close>: the forward pass on each row, with the current parameters of \<open>G\<close>.\<close>

definition predict_G ::
  "('w, 'o, 'a, 'z, 'm) env \<Rightarrow> 'z list list \<Rightarrow> ('w, 'o, 'a, 'z, 'm) state
     \<Rightarrow> 'a list list \<times> ('w, 'o, 'a, 'z, 'm) state" where
  "predict_G env noise s =
     (let imgs = map (forward_G env (weights s Gnet)) noise
      in (imgs, s\<lparr> trace := trace s @ [PredictG noise imgs] \<rparr>))"

text \<open>
  \<^verbatim>\<open>train_on_batch\<close>: one step of the optimiser, applied to the parameters the model
  collected when it was compiled and to no others.
\<close>

definition masked :: "net set \<Rightarrow> (net \<Rightarrow> 'w) \<Rightarrow> (net \<Rightarrow> 'w) \<Rightarrow> net \<Rightarrow> 'w" where
  "masked C old new = (\<lambda>k. if k \<in> C then new k else old k)"

definition D_train_on_batch ::
  "('w, 'o, 'a, 'z, 'm) env \<Rightarrow> 'a list list \<Rightarrow> real list \<Rightarrow> ('w, 'o, 'a, 'z, 'm) state
     \<Rightarrow> ('m \<times> 'm) \<times> ('w, 'o, 'a, 'z, 'm) state" where
  "D_train_on_batch env x y s =
     (case fit_D env (weights s) (optimizer s) x y of
        (w', o', m) \<Rightarrow>
          (m, s\<lparr> weights := masked (D_collected s) (weights s) w',
                 optimizer := o',
                 trace := trace s @ [TrainD x y m] \<rparr>))"

definition full_gan_train_on_batch ::
  "('w, 'o, 'a, 'z, 'm) env \<Rightarrow> 'z list list \<Rightarrow> real list \<Rightarrow> ('w, 'o, 'a, 'z, 'm) state
     \<Rightarrow> ('m \<times> 'm) \<times> ('w, 'o, 'a, 'z, 'm) state" where
  "full_gan_train_on_batch env x y s =
     (case fit_GAN env (weights s) (optimizer s) x y of
        (w', o', m) \<Rightarrow>
          (m, s\<lparr> weights := masked (GAN_collected s) (weights s) w',
                 optimizer := o',
                 trace := trace s @ [TrainGan x y m] \<rparr>))"

section \<open>Cell 3: the training loop\<close>

definition epochs :: nat where
  "epochs = 30000"

definition batch_size :: nat where
  "batch_size = 32"

definition half_batch_size :: nat where
  "half_batch_size = batch_size div 2"

fun show_nat :: "nat \<Rightarrow> string" where
  "show_nat n =
     (if n < 10 then [''0123456789'' ! n]
      else show_nat (n div 10) @ [''0123456789'' ! (n mod 10)])"

declare show_nat.simps [simp del]

text \<open>\<^verbatim>\<open>"%d [D loss: %f, acc.: %.2f%%] [G loss: %f]" % (epoch, dloss[0], 100*dloss[1], gloss[0])\<close>\<close>

definition format_line ::
  "('w, 'o, 'a, 'z, 'm::{plus,times}) env \<Rightarrow> nat \<Rightarrow> 'm \<times> 'm \<Rightarrow> 'm \<times> 'm \<Rightarrow> string" where
  "format_line env epoch dl gl =
     show_nat epoch @ '' [D loss: '' @ fmt_f env (fst dl) @ '', acc.: ''
       @ fmt_2f env (hundred env * snd dl) @ ''%] [G loss: '' @ fmt_f env (fst gl) @ '']''"

text \<open>\<^verbatim>\<open>noise = np.random.normal(size=(k, noise_res)); imgs = G.predict(noise)\<close>\<close>

definition generate ::
  "('w, 'o, 'a, 'z, 'm) env \<Rightarrow> nat \<Rightarrow> nat \<Rightarrow> ('w, 'o, 'a, 'z, 'm) state
     \<Rightarrow> 'a list list \<times> ('w, 'o, 'a, 'z, 'm) state" where
  "generate env k N s =
     (case np_random_normal k N s of (noise, s') \<Rightarrow> predict_G env noise s')"

text \<open>\<^verbatim>\<open>dloss = 0.5 * np.add(rloss, floss)\<close>, on the pairs loss, accuracy.\<close>

definition average ::
  "('w, 'o, 'a, 'z, 'm::{plus,times}) env \<Rightarrow> 'm \<times> 'm \<Rightarrow> 'm \<times> 'm \<Rightarrow> 'm \<times> 'm" where
  "average env rloss floss =
     (half env * (fst rloss + fst floss), half env * (snd rloss + snd floss))"

definition report ::
  "('w, 'o, 'a, 'z, 'm::{plus,times}) env \<Rightarrow> nat \<Rightarrow> 'm \<times> 'm \<Rightarrow> 'm \<times> 'm
     \<Rightarrow> ('w, 'o, 'a, 'z, 'm) state \<Rightarrow> ('w, 'o, 'a, 'z, 'm) state" where
  "report env epoch dl gl s =
     (if epoch mod 100 = 0 then s\<lparr> trace := trace s @ [Printed (format_line env epoch dl gl)] \<rparr>
      else s)"

definition epoch_body ::
  "('w, 'o, 'a, 'z, 'm::{plus,times}) env \<Rightarrow> 'a ndarray3 \<Rightarrow> nat \<Rightarrow> nat
     \<Rightarrow> ('w, 'o, 'a, 'z, 'm) state \<Rightarrow> pyerr + ('w, 'o, 'a, 'z, 'm) state" where
  "epoch_body env X N epoch s =
     (case np_random_randint (n_imgs X) half_batch_size s of
        Inl e \<Rightarrow> Inl e
      | Inr (real_idxs, s1) \<Rightarrow>
     (case fancy_index X real_idxs of
        Inl e \<Rightarrow> Inl e
      | Inr real_imgs \<Rightarrow>
     (case generate env half_batch_size N s1 of (fake_imgs, s2) \<Rightarrow>
     (case D_train_on_batch env real_imgs (np_ones half_batch_size) s2 of (rloss, s3) \<Rightarrow>
     (case D_train_on_batch env fake_imgs (np_zeros half_batch_size) s3 of (floss, s4) \<Rightarrow>
     (case np_random_normal batch_size N s4 of (noise, s5) \<Rightarrow>
     (case full_gan_train_on_batch env noise (np_ones batch_size) s5 of (gl, s6) \<Rightarrow>
        Inr (report env epoch (average env rloss floss) gl
               (s6\<lparr> dloss := Some (average env rloss floss), gloss := Some gl \<rparr>)))))))))"

text \<open>\<^verbatim>\<open>for epoch in range(n)\<close>: the bodies for 0, 1, ..., n - 1 in turn; an error ends the run.\<close>

definition train_loop ::
  "('w, 'o, 'a, 'z, 'm::{plus,times}) env \<Rightarrow> 'a ndarray3 \<Rightarrow> nat \<Rightarrow> nat
     \<Rightarrow> ('w, 'o, 'a, 'z, 'm) state \<Rightarrow> pyerr + ('w, 'o, 'a, 'z, 'm) state" where
  "train_loop env X N n s =
     fold (\<lambda>epoch r. case r of Inl e \<Rightarrow> Inl e | Inr s' \<Rightarrow> epoch_body env X N epoch s')
          [0..<n] (Inr s)"

section \<open>Cell 4: the final samples, and the whole notebook\<close>

definition final_samples ::
  "('w, 'o, 'a, 'z, 'm) env \<Rightarrow> nat \<Rightarrow> ('w, 'o, 'a, 'z, 'm) state
     \<Rightarrow> 'a list list \<times> ('w, 'o, 'a, 'z, 'm) state" where
  "final_samples env N s = generate env 9 N s"

definition notebook ::
  "('w, 'o, npfloat, 'z, 'm::{plus,times}) env \<Rightarrow> 8 word ndarray3 \<Rightarrow> (net \<Rightarrow> 'w) \<Rightarrow> 'o
     \<Rightarrow> nat stream \<Rightarrow> 'z stream \<Rightarrow> pyerr + (npfloat list list \<times> ('w, 'o, npfloat, 'z, 'm) state)" where
  "notebook env raw w0 o0 ints normals =
     (case normalise raw of
        Inl e \<Rightarrow> Inl e
      | Inr X \<Rightarrow>
     (case build_models (n_rows X) (n_cols X) w0 o0 ints normals of
        Inl e \<Rightarrow> Inl e
      | Inr s \<Rightarrow>
     (case train_loop env X (noise_res (n_rows X) (n_cols X)) epochs s of
        Inl e \<Rightarrow> Inl e
      | Inr s' \<Rightarrow> Inr (final_samples env (noise_res (n_rows X) (n_cols X)) s'))))"


section \<open>Reading the trace\<close>

fun is_assignment :: "('a, 'z, 'm) event \<Rightarrow> bool" where
  "is_assignment (SetTrainableD b) = True"
| "is_assignment ev = False"

fun is_D_step :: "('a, 'z, 'm) event \<Rightarrow> bool" where
  "is_D_step (TrainD x y m) = True"
| "is_D_step ev = False"

fun is_GAN_step :: "('a, 'z, 'm) event \<Rightarrow> bool" where
  "is_GAN_step (TrainGan x y m) = True"
| "is_GAN_step ev = False"

fun printed_lines :: "('a, 'z, 'm) event list \<Rightarrow> string list" where
  "printed_lines [] = []"
| "printed_lines (Printed l # evs) = l # printed_lines evs"
| "printed_lines (ev # evs) = printed_lines evs"

section \<open>Small concrete inputs\<close>

definition toy_env :: "(nat, nat, npfloat, real, real) env" where
  "toy_env =
     \<lparr> forward_G = (\<lambda>w z. replicate 8 (Finite 0)),
       fit_D = (\<lambda>ws opt x y. (\<lambda>k. ws k + 1, opt + 1, (1, 1 / 2))),
       fit_GAN = (\<lambda>ws opt x y. (\<lambda>k. ws k + 1, opt + 1, (2, 0))),
       half = 1 / 2,
       hundred = 100,
       fmt_f = (\<lambda>v. ''f''),
       fmt_2f = (\<lambda>v. ''p'') \<rparr>"

definition toy_raw :: "8 word ndarray3" where
  "toy_raw = \<lparr> n_imgs = 2, n_rows = 2, n_cols = 4,
               elems = [0, 255, 51, 255, 0, 0, 255, 255,
                        255, 0, 0, 255, 255, 255, 0, 0] \<rparr>"

definition toy_X :: "npfloat ndarray3" where
  "toy_X = \<lparr> n_imgs = 2, n_rows = 2, n_cols = 4,
             elems = [Finite 0, Finite 1, Finite (3602879701896397 / 18014398509481984),
                      Finite 1, Finite 0, Finite 0, Finite 1, Finite 1,
                      Finite 1, Finite 0, Finite 0, Finite 1,
                      Finite 1, Finite 1, Finite 0, Finite 0] \<rparr>"

definition toy_const :: "8 word ndarray3" where
  "toy_const = \<lparr> n_imgs = 1, n_rows = 1, n_cols = 2, elems = [7, 7] \<rparr>"

definition toy_built :: "(nat, nat, npfloat, real, real) state" where
  "toy_built =
     \<lparr> weights = (\<lambda>k. 0), optimizer = 0, trainable = (\<lambda>k. True)(Dnet := False),
       D_collected = {Dnet}, GAN_collected = {Gnet},
       rand_ints = sconst 0, rand_normals = sconst 0, dloss = None, gloss = None,
       trace = [Summary Dnet, CompileD, Summary Gnet, SetTrainableD False, BuildGan, CompileGan] \<rparr>"

text \<open>
  Parameters for images of 2 by 4 pixels, all 0 but for the bias of the discriminator's
  last layer, which is 200; and an environment whose generator is the forward pass on
  32-bit floats.
\<close>

definition toy_G_weights :: "npfloat built list" where
  "toy_G_weights =
     [BDense (replicate 2 (replicate 2 (Finite 0))) (replicate 2 (Finite 0)) Linear,
      BLeakyReLU,
      BDense (replicate 4 (replicate 2 (Finite 0))) (replicate 4 (Finite 0)) Linear,
      BLeakyReLU,
      BDense (replicate 8 (replicate 4 (Finite 0))) (replicate 8 (Finite 0)) Linear,
      BLeakyReLU,
      BMaxoutDense (replicate 4 (replicate 8 (replicate 8 (Finite 0)), replicate 8 (Finite 0))),
      BReshape [2, 4]]"

definition toy_D_weights :: "npfloat built list" where
  "toy_D_weights =
     [BFlatten,
      BDense (replicate 4 (replicate 8 (Finite 0))) (replicate 4 (Finite 0)) Linear,
      BLeakyReLU,
      BDense (replicate 2 (replicate 4 (Finite 0))) (replicate 2 (Finite 0)) Linear,
      BLeakyReLU,
      BDense [replicate 2 (Finite 0)] [Finite 0] Linear,
      BLeakyReLU,
      BDense [[Finite 0]] [Finite 200] Sigmoid]"

definition toy_keras_env :: "(npfloat built list, nat, npfloat, npfloat, real) env" where
  "toy_keras_env =
     \<lparr> forward_G = forward_sample float32_arith,
       fit_D = (\<lambda>ws opt x y. (ws, opt + 1, (1, 1 / 2))),
       fit_GAN = (\<lambda>ws opt x y. (ws, opt + 1, (2, 0))),
       half = 1 / 2,
       hundred = 100,
       fmt_f = (\<lambda>v. ''f''),
       fmt_2f = (\<lambda>v. ''p'') \<rparr>"

definition toy_keras_built :: "(npfloat built list, nat, npfloat, npfloat, real) state" where
  "toy_keras_built =
     \<lparr> weights = (\<lambda>k. case k of Dnet \<Rightarrow> toy_D_weights | Gnet \<Rightarrow> toy_G_weights),
       optimizer = 0, trainable = (\<lambda>k. True)(Dnet := False),
       D_collected = {Dnet}, GAN_collected = {Gnet},
       rand_ints = sconst 0, rand_normals = sconst (Finite 0), dloss = None, gloss = None,
       trace = [Summary Dnet, CompileD, Summary Gnet, SetTrainableD False, BuildGan, CompileGan] \<rparr>"

section \<open>Facts about rounding\<close>

lemma round_half_even_ge: "of_int n \<le> x \<Longrightarrow> n \<le> round_half_even x"
proof -
  assume "of_int n \<le> x"
  then have "n \<le> \<lfloor>x\<rfloor>" by (simp add: le_floor_iff)
  then show ?thesis by (simp add: round_half_even_def)
qed

lemma round_half_even_le: "x \<le> of_int n \<Longrightarrow> round_half_even x \<le> n"
proof (cases "x = of_int n")
  case True
  then show ?thesis by (simp add: round_half_even_def)
next
  case False
  assume "x \<le> of_int n"
  with False have "x < of_int n" by simp
  then have "\<lfloor>x\<rfloor> < n" by (simp add: floor_less_iff)
  then show ?thesis by (simp add: round_half_even_def)
qed

lemma round_half_even_of_int: "round_half_even (of_int n) = n"
  by (simp add: round_half_even_def)

text \<open>The binade of a positive number.\<close>

lemma binade_bounds:
  assumes "0 < x"
  shows "2 powr of_int \<lfloor>log 2 x\<rfloor> \<le> x" and "x < 2 powr (of_int \<lfloor>log 2 x\<rfloor> + 1)"
proof -
  have a: "of_int \<lfloor>log 2 x\<rfloor> \<le> log 2 x" by simp
  have "2 powr of_int \<lfloor>log 2 x\<rfloor> \<le> 2 powr log 2 x"
    using a by (simp only: powr_le_cancel_iff one_less_numeral_iff semiring_norm)
  then show "2 powr of_int \<lfloor>log 2 x\<rfloor> \<le> x"
    using assms by simp
  have b: "log 2 x < of_int \<lfloor>log 2 x\<rfloor> + 1" by linarith
  have "2 powr log 2 x < 2 powr (of_int \<lfloor>log 2 x\<rfloor> + 1)"
    using b by (simp only: powr_less_cancel_iff one_less_numeral_iff semiring_norm)
  then show "x < 2 powr (of_int \<lfloor>log 2 x\<rfloor> + 1)"
    using assms by simp
qed


lemma scaled_le:
  fixes x c :: real
  assumes "x \<le> 2 powr (of_int e + c)"
  shows "x / 2 powr (of_int e - of_nat p) \<le> 2 powr (of_nat p + c)"
proof -
  have "x / 2 powr (of_int e - of_nat p) \<le> 2 powr (of_int e + c) / 2 powr (of_int e - of_nat p)"
    using assms by (simp add: divide_right_mono)
  also have "\<dots> = 2 powr (of_nat p + c)"
    by (simp add: powr_diff [symmetric] algebra_simps)
  finally show ?thesis .
qed

lemma scaled_ge:
  fixes x :: real
  assumes "2 powr (of_int e) \<le> x"
  shows "2 powr (of_nat p) \<le> x / 2 powr (of_int e - of_nat p)"
proof -
  have "2 powr (of_int e) / 2 powr (of_int e - of_nat p) \<le> x / 2 powr (of_int e - of_nat p)"
    using assms by (simp add: divide_right_mono)
  moreover have "(2::real) powr (of_int e) / 2 powr (of_int e - of_nat p) = 2 powr (of_nat p)"
    by (simp add: powr_diff [symmetric])
  ultimately show ?thesis by simp
qed

lemma two_powr_nat: "(2::real) powr (of_nat n) = of_int (2 ^ n)"
  by (simp add: powr_realpow)

lemma ieee_round_unit:
  assumes "0 \<le> x" "x \<le> 1" "emin < 0" "0 < emax"
  shows "\<exists>r. ieee_round p emin emax x = Finite r \<and> 0 \<le> r \<and> r \<le> 1"
proof (cases "x = 0")
  case True
  then show ?thesis by (simp add: ieee_round_def)
next
  case False
  with assms have pos: "0 < x" by simp
  define e where "e = max \<lfloor>log 2 \<bar>x\<bar>\<rfloor> emin"
  define ulp :: real where "ulp = 2 powr (of_int e - of_nat p)"
  define y :: real where "y = of_int (round_half_even (\<bar>x\<bar> / ulp)) * ulp"
  have ulp: "0 < ulp" by (simp add: ulp_def)
  have form: "ieee_round p emin emax x =
      (if 2 ^ emax \<le> y then (if 0 < x then PosInf else NegInf) else Finite (sgn x * y))"
    using False by (simp add: ieee_round_def Let_def e_def ulp_def y_def)
  have "of_int 0 \<le> \<bar>x\<bar> / ulp" using pos ulp by simp
  then have "0 \<le> round_half_even (\<bar>x\<bar> / ulp)" by (rule round_half_even_ge)
  then have y0: "0 \<le> y" using ulp by (simp add: y_def)
  have y1: "y \<le> 1"
  proof (cases "x = 1")
    case True
    then have "e = 0" using assms(3) by (simp add: e_def)
    then have "\<bar>x\<bar> / ulp = of_int (2 ^ p)"
      using True by (simp add: ulp_def powr_minus powr_realpow field_simps)
    then have "round_half_even (\<bar>x\<bar> / ulp) = 2 ^ p"
      by (simp only: round_half_even_of_int)
    then show ?thesis
      using \<open>e = 0\<close> by (simp add: y_def ulp_def powr_minus powr_realpow)
  next
    case False
    with assms have lt: "x < 1" by simp
    then have "log 2 x < 0" using pos by simp
    then have L: "\<lfloor>log 2 x\<rfloor> \<le> - 1" by (simp add: floor_le_iff)
    then have e: "e \<le> - 1" "\<lfloor>log 2 x\<rfloor> \<le> e"
      using assms(3) pos by (simp_all add: e_def)
    have "x < 2 powr (of_int \<lfloor>log 2 x\<rfloor> + 1)" by (rule binade_bounds [OF pos])
    also have "\<dots> \<le> 2 powr (of_int e + 1)" using e(2) by simp
    finally have "\<bar>x\<bar> \<le> 2 powr (of_int e + 1)" using pos by simp
    then have "\<bar>x\<bar> / ulp \<le> 2 powr (of_nat p + 1)"
      unfolding ulp_def by (rule scaled_le)
    also have "\<dots> = of_int (2 ^ (p + 1))"
      using two_powr_nat [of "p + 1"] by (simp add: add.commute)
    finally have "round_half_even (\<bar>x\<bar> / ulp) \<le> 2 ^ (p + 1)"
      by (rule round_half_even_le)
    then have "of_int (round_half_even (\<bar>x\<bar> / ulp)) \<le> (2::real) ^ (p + 1)"
      by (metis of_int_le_iff of_int_numeral of_int_power)
    then have "y \<le> 2 ^ (p + 1) * ulp"
      unfolding y_def using ulp by (simp add: mult_right_mono)
    also have "\<dots> = 2 powr (of_nat (p + 1)) * 2 powr (of_int e - of_nat p)"
      using two_powr_nat [of "p + 1"] by (simp add: ulp_def)
    also have "\<dots> = 2 powr (of_int e + 1)"
      by (simp add: powr_add [symmetric] algebra_simps)
    also have "\<dots> \<le> 2 powr 0" using e(1) by (simp only: powr_le_cancel_iff)
    finally show ?thesis by simp
  qed
  have "(1::real) < 2 ^ emax" using assms(4) by (simp add: one_less_power)
  with y1 have "\<not> 2 ^ emax \<le> y" by simp
  then have "ieee_round p emin emax x = Finite y"
    using form pos by simp
  with y0 y1 show ?thesis by blast
qed

lemma ieee_round_ge_one:
  assumes "1 \<le> x" "emin \<le> 0"
  shows "ieee_round p emin emax x = PosInf \<or>
         (\<exists>r. ieee_round p emin emax x = Finite r \<and> 1 \<le> r)"
proof -
  from assms have pos: "0 < x" by simp
  define e where "e = max \<lfloor>log 2 \<bar>x\<bar>\<rfloor> emin"
  define ulp :: real where "ulp = 2 powr (of_int e - of_nat p)"
  define y :: real where "y = of_int (round_half_even (\<bar>x\<bar> / ulp)) * ulp"
  have ulp: "0 < ulp" by (simp add: ulp_def)
  have form: "ieee_round p emin emax x =
      (if 2 ^ emax \<le> y then (if 0 < x then PosInf else NegInf) else Finite (sgn x * y))"
    using pos by (simp add: ieee_round_def Let_def e_def ulp_def y_def)
  have "0 \<le> log 2 x" using assms(1) by simp
  then have L: "0 \<le> \<lfloor>log 2 x\<rfloor>" by simp
  have "emin \<le> \<lfloor>log 2 x\<rfloor>" using L assms(2) by linarith
  then have "max \<lfloor>log 2 x\<rfloor> emin = \<lfloor>log 2 x\<rfloor>" by (rule max_absorb1)
  moreover have "\<bar>x\<bar> = x" using pos by simp
  ultimately have e: "e = \<lfloor>log 2 x\<rfloor>" by (simp only: e_def)
  have "2 powr (of_int e) \<le> \<bar>x\<bar>"
    unfolding e using binade_bounds(1) [OF pos] pos by simp
  then have "2 powr (of_nat p) \<le> \<bar>x\<bar> / ulp"
    unfolding ulp_def by (rule scaled_ge)
  then have "of_int (2 ^ p) \<le> \<bar>x\<bar> / ulp"
    by (simp only: two_powr_nat)
  then have "2 ^ p \<le> round_half_even (\<bar>x\<bar> / ulp)"
    by (rule round_half_even_ge)
  then have "(2::real) ^ p \<le> of_int (round_half_even (\<bar>x\<bar> / ulp))"
    by (metis of_int_le_iff of_int_numeral of_int_power)
  then have "2 ^ p * ulp \<le> y"
    unfolding y_def using ulp by (simp add: mult_right_mono)
  moreover have "2 ^ p * ulp = 2 powr (of_int e)"
    by (simp add: ulp_def powr_realpow [symmetric] powr_add [symmetric])
  moreover have "(1::real) \<le> 2 powr (of_int e)"
    using L e by (simp add: ge_one_powr_ge_zero)
  ultimately have y1: "1 \<le> y" by simp
  show ?thesis
    using form pos y1 by (cases "2 ^ emax \<le> y") simp_all
qed

lemma ieee_round_nonneg:
  assumes "0 \<le> x"
  shows "ieee_round p emin emax x = PosInf \<or>
         (\<exists>r. ieee_round p emin emax x = Finite r \<and> 0 \<le> r)"
proof (cases "x = 0")
  case True
  then show ?thesis by (simp add: ieee_round_def)
next
  case False
  with assms have pos: "0 < x" by simp
  define ulp :: real where "ulp = 2 powr (of_int (max \<lfloor>log 2 \<bar>x\<bar>\<rfloor> emin) - of_nat p)"
  define y :: real where "y = of_int (round_half_even (\<bar>x\<bar> / ulp)) * ulp"
  have ulp: "0 < ulp" by (simp add: ulp_def)
  have form: "ieee_round p emin emax x =
      (if 2 ^ emax \<le> y then (if 0 < x then PosInf else NegInf) else Finite (sgn x * y))"
    using pos by (simp add: ieee_round_def Let_def ulp_def y_def)
  have "of_int 0 \<le> \<bar>x\<bar> / ulp" using pos ulp by simp
  then have "0 \<le> round_half_even (\<bar>x\<bar> / ulp)" by (rule round_half_even_ge)
  then have y0: "0 \<le> y" using ulp by (simp add: y_def)
  show ?thesis
    using form pos y0 by (cases "2 ^ emax \<le> y") simp_all
qed

lemma ieee_round_not_NaN: "ieee_round p emin emax x \<noteq> NaN"
  by (simp add: ieee_round_def Let_def)


lemma floor_log2_fifth: "\<lfloor>log 2 (1 / 5 :: real)\<rfloor> = - 3"
proof -
  have "(2::real) powr of_int (- 3) \<le> 1 / 5 \<and> 1 / 5 < (2::real) powr (of_int (- 3) + 1)"
    by (simp add: powr_minus_divide)
  then show ?thesis
    using floor_log_eq_powr_iff [of "1 / 5 :: real" 2 "- 3"] by simp
qed

lemma round_half_even_fifth:
  "round_half_even (36028797018963968 / 5) = 7205759403792794"
proof -
  have f: "\<lfloor>36028797018963968 / 5 :: real\<rfloor> = 7205759403792793"
    by (rule floor_unique) simp_all
  show ?thesis
    unfolding round_half_even_def f by simp
qed

lemma float64_fifth:
  "float64 (1 / 5) = Finite (3602879701896397 / 18014398509481984)"
proof -
  have u: "(2::real) powr (of_int (- 3) - of_nat 52) = 1 / 36028797018963968"
    by (simp add: powr_minus_divide)
  have q: "\<bar>1 / 5 :: real\<bar> / (1 / 36028797018963968) = 36028797018963968 / 5"
    by simp
  have m: "max \<lfloor>log 2 \<bar>1 / 5 :: real\<bar>\<rfloor> (- 1022) = - 3"
    using floor_log2_fifth by simp
  show ?thesis
    unfolding float64_def ieee_round_def Let_def m u q round_half_even_fifth
    by simp
qed

lemma float64_0: "float64 0 = Finite 0"
  by (simp add: float64_def ieee_round_def)

lemma float64_1: "float64 1 = Finite 1"
  using ieee_round_unit [of 1 "- 1022" 1024 52] ieee_round_ge_one [of 1 "- 1022" 52 1024]
  by (auto simp: float64_def)

section \<open>Facts about cell 1\<close>

lemma np_min_Min: "xs \<noteq> [] \<Longrightarrow> np_min xs = Min (set xs)"
  using Min.set_eq_fold [of "hd xs" "tl xs"] by (cases xs) (simp_all add: np_min_def)

lemma np_max_Max: "xs \<noteq> [] \<Longrightarrow> np_max xs = Max (set xs)"
  using Max.set_eq_fold [of "hd xs" "tl xs"] by (cases xs) (simp_all add: np_max_def)

lemma np_min_le: "x \<in> set xs \<Longrightarrow> np_min xs \<le> x"
  by (cases "xs = []") (simp_all add: np_min_Min)

lemma np_max_ge: "x \<in> set xs \<Longrightarrow> x \<le> np_max xs"
  by (cases "xs = []") (simp_all add: np_max_Max)

lemma np_min_in: "xs \<noteq> [] \<Longrightarrow> np_min xs \<in> set xs"
  by (simp add: np_min_Min)

lemma np_max_in: "xs \<noteq> [] \<Longrightarrow> np_max xs \<in> set xs"
  by (simp add: np_max_Max)

lemma np_min_le_max: "xs \<noteq> [] \<Longrightarrow> np_min xs \<le> np_max xs"
  using np_min_le [OF np_max_in] by blast

lemma constant_iff:
  assumes "xs \<noteq> []"
  shows "(\<forall>x\<in>set xs. \<forall>y\<in>set xs. x = y) \<longleftrightarrow> np_max xs = np_min xs"
proof
  assume "\<forall>x\<in>set xs. \<forall>y\<in>set xs. x = y"
  then show "np_max xs = np_min xs"
    using np_min_in [OF assms] np_max_in [OF assms] by blast
next
  assume eq: "np_max xs = np_min xs"
  show "\<forall>x\<in>set xs. \<forall>y\<in>set xs. x = y"
  proof (intro ballI)
    fix x y assume "x \<in> set xs" "y \<in> set xs"
    then have "x = np_min xs" "y = np_min xs"
      using np_min_le [of x xs] np_max_ge [of x xs] np_min_le [of y xs] np_max_ge [of y xs] eq
      by auto
    then show "x = y" by simp
  qed
qed

lemma pixel_nonconstant:
  assumes "np_min xs < np_max xs" "x \<in> set xs"
  shows "true_divide (x - np_min xs) (np_max xs - np_min xs)
     = float64 ((real (unat x) - real (unat (np_min xs)))
                / (real (unat (np_max xs)) - real (unat (np_min xs))))"
proof -
  let ?mn = "np_min xs" and ?mx = "np_max xs"
  have mn: "?mn \<le> x" using assms by (simp add: np_min_le)
  have d: "?mx - ?mn \<noteq> 0" using assms(1) by simp
  have "unat (x - ?mn) = unat x - unat ?mn" using mn by (simp add: unat_sub)
  moreover have "unat (?mx - ?mn) = unat ?mx - unat ?mn" using assms(1) by (simp add: unat_sub)
  moreover have "unat ?mn \<le> unat x" using mn by (simp add: word_le_nat_alt)
  moreover have "unat ?mn \<le> unat ?mx" using assms(1) by (simp add: word_less_nat_alt)
  ultimately show ?thesis using d by (simp add: true_divide_def of_nat_diff)
qed

lemma ratio_in_unit:
  fixes a x b :: nat
  assumes "a \<le> x" "x \<le> b" "a < b"
  shows "0 \<le> (real x - real a) / (real b - real a) \<and> (real x - real a) / (real b - real a) \<le> 1"
  using assms by simp

lemma pixel_in_unit:
  assumes "np_min xs < np_max xs" "x \<in> set xs"
  shows "0 \<le> (real (unat x) - real (unat (np_min xs)))
                / (real (unat (np_max xs)) - real (unat (np_min xs))) \<and>
         (real (unat x) - real (unat (np_min xs)))
                / (real (unat (np_max xs)) - real (unat (np_min xs))) \<le> 1"
proof -
  have a: "unat (np_min xs) \<le> unat x" using np_min_le [OF assms(2)] by (simp add: word_le_nat_alt)
  have b: "unat x \<le> unat (np_max xs)" using np_max_ge [OF assms(2)] by (simp add: word_le_nat_alt)
  have c: "unat (np_min xs) < unat (np_max xs)" using assms(1) by (simp add: word_less_nat_alt)
  show ?thesis by (rule ratio_in_unit [OF a b c])
qed

lemma float64_unit:
  assumes "0 \<le> q" "q \<le> 1"
  shows "\<exists>r. float64 q = Finite r \<and> 0 \<le> r \<and> r \<le> 1"
  unfolding float64_def by (rule ieee_round_unit [OF assms]) simp_all

lemma pixel_float_in_unit:
  assumes "np_min xs < np_max xs" "x \<in> set xs"
  shows "\<exists>r. true_divide (x - np_min xs) (np_max xs - np_min xs) = Finite r \<and> 0 \<le> r \<and> r \<le> 1"
  unfolding pixel_nonconstant [OF assms]
  using pixel_in_unit [OF assms] by (intro float64_unit) simp_all

lemma pixel_constant:
  assumes "np_max xs = np_min xs" "x \<in> set xs"
  shows "true_divide (x - np_min xs) (np_max xs - np_min xs) = NaN"
proof -
  have "x = np_min xs"
    using np_min_le [OF assms(2)] np_max_ge [OF assms(2)] assms(1) by auto
  then show ?thesis using assms(1) by (simp add: true_divide_def)
qed

lemma normalise_Inr:
  "elems raw \<noteq> [] \<Longrightarrow>
   normalise raw = Inr \<lparr> n_imgs = n_imgs raw, n_rows = n_rows raw, n_cols = n_cols raw,
       elems = map (\<lambda>x. true_divide (x - np_min (elems raw))
                          (np_max (elems raw) - np_min (elems raw))) (elems raw) \<rparr>"
  by (simp add: normalise_def)

section \<open>Facts about cell 2\<close>

lemma D_input_shape: "input_shape (D_model H W) = [H, W]"
  by (simp add: D_model_def img_shape_def)

lemma G_input_shape: "input_shape (G_model H W) = [noise_res H W]"
  by (simp add: G_model_def)

lemma D_output_shape:
  assumes "8 \<le> H * W"
  shows "output_shape (D_model H W) = Inr [1]"
proof -
  have "0 < H * W" using assms by linarith
  then have "H \<noteq> 0" "W \<noteq> 0" by simp_all
  moreover have "0 < H * W div 2" "0 < H * W div 4" "0 < H * W div 8"
    using assms by (simp_all add: div_greater_zero_iff)
  ultimately show ?thesis
    by (simp add: output_shape_def D_model_def img_shape_def res_def)
qed

lemma G_output_shape:
  assumes "4 \<le> H * W"
  shows "output_shape (G_model H W) = Inr [H, W]"
proof -
  have "0 < H * W div 4" using assms by (simp add: div_greater_zero_iff)
  moreover have "0 < H * W div 2" using assms by (simp add: div_greater_zero_iff)
  moreover have "0 < H * W" using assms by linarith
  ultimately show ?thesis
    by (simp add: output_shape_def G_model_def img_shape_def res_def noise_res_def)
qed

lemma D_output_shape_small:
  assumes "H * W < 8"
  shows "output_shape (D_model H W) = Inl (if H = 0 \<or> W = 0 then ValueError else AssertionError)"
proof -
  have "H * W div 8 = 0" using assms by simp
  then show ?thesis
    by (simp add: output_shape_def D_model_def img_shape_def res_def)
qed

lemma build_models_eq:
  assumes "8 \<le> H * W"
  shows "build_models H W w0 o0 ints normals =
     Inr (compile_full_gan (make_full_gan (set_D_trainable False
            (summary Gnet (compile_D (summary Dnet (initial_state w0 o0 ints normals)))))))"
proof -
  have g: "output_shape (G_model H W) = Inr [H, W]"
    using assms by (intro G_output_shape) simp
  show ?thesis
    unfolding build_models_def D_output_shape [OF assms] g D_input_shape by (simp add: Let_def)
qed

lemma build_models_small:
  "H * W < 8 \<Longrightarrow>
   build_models H W w0 o0 ints normals
     = Inl (if H = 0 \<or> W = 0 then ValueError else AssertionError)"
  unfolding build_models_def by (simp add: D_output_shape_small)

lemma built_state:
  "compile_full_gan (make_full_gan (set_D_trainable False
            (summary Gnet (compile_D (summary Dnet (initial_state w0 o0 ints normals)))))) =
   \<lparr> weights = w0, optimizer = o0, trainable = (\<lambda>_. True)(Dnet := False),
     D_collected = {Dnet}, GAN_collected = {Gnet},
     rand_ints = ints, rand_normals = normals, dloss = None, gloss = None,
     trace = [Summary Dnet, CompileD, Summary Gnet, SetTrainableD False, BuildGan, CompileGan] \<rparr>"
  by (simp add: compile_full_gan_def make_full_gan_def set_D_trainable_def compile_D_def
      summary_def initial_state_def trainable_weights_def)

section \<open>Facts about the calls and the loop body\<close>

lemma half_batch_size_16: "half_batch_size = 16"
  by (simp add: half_batch_size_def batch_size_def)

lemma length_take_rows: "length (take_rows k n xs) = k"
  by (induction k arbitrary: xs) simp_all

lemma take_rows_row_length: "r \<in> set (take_rows k n xs) \<Longrightarrow> length r = n"
  by (induction k arbitrary: xs) auto

lemma np_random_normal_fst: "fst (np_random_normal k n s) = take_rows k n (rand_normals s)"
  by (simp add: np_random_normal_def)

lemma np_random_normal_snd:
  "snd (np_random_normal k n s) = s\<lparr> rand_normals := sdrop (k * n) (rand_normals s) \<rparr>"
  by (simp add: np_random_normal_def)

lemma generate_eq:
  "generate env k N s =
     (map (forward_G env (weights s Gnet)) (take_rows k N (rand_normals s)),
      s\<lparr> rand_normals := sdrop (k * N) (rand_normals s),
         trace := trace s @ [PredictG (take_rows k N (rand_normals s))
                     (map (forward_G env (weights s Gnet)) (take_rows k N (rand_normals s)))] \<rparr>)"
  by (simp add: generate_def np_random_normal_def predict_G_def Let_def)

lemma D_train_fields:
  "trace (snd (D_train_on_batch env x y s)) = trace s @ [TrainD x y (fst (D_train_on_batch env x y s))]"
  "trainable (snd (D_train_on_batch env x y s)) = trainable s"
  "D_collected (snd (D_train_on_batch env x y s)) = D_collected s"
  "GAN_collected (snd (D_train_on_batch env x y s)) = GAN_collected s"
  "rand_ints (snd (D_train_on_batch env x y s)) = rand_ints s"
  "rand_normals (snd (D_train_on_batch env x y s)) = rand_normals s"
  "dloss (snd (D_train_on_batch env x y s)) = dloss s"
  "gloss (snd (D_train_on_batch env x y s)) = gloss s"
  "weights (snd (D_train_on_batch env x y s)) =
     masked (D_collected s) (weights s) (fst (fit_D env (weights s) (optimizer s) x y))"
  by (simp_all add: D_train_on_batch_def split: prod.splits)

lemma GAN_train_fields:
  "trace (snd (full_gan_train_on_batch env x y s)) = trace s @ [TrainGan x y (fst (full_gan_train_on_batch env x y s))]"
  "trainable (snd (full_gan_train_on_batch env x y s)) = trainable s"
  "D_collected (snd (full_gan_train_on_batch env x y s)) = D_collected s"
  "GAN_collected (snd (full_gan_train_on_batch env x y s)) = GAN_collected s"
  "rand_ints (snd (full_gan_train_on_batch env x y s)) = rand_ints s"
  "rand_normals (snd (full_gan_train_on_batch env x y s)) = rand_normals s"
  "dloss (snd (full_gan_train_on_batch env x y s)) = dloss s"
  "gloss (snd (full_gan_train_on_batch env x y s)) = gloss s"
  "weights (snd (full_gan_train_on_batch env x y s)) =
     masked (GAN_collected s) (weights s) (fst (fit_GAN env (weights s) (optimizer s) x y))"
  by (simp_all add: full_gan_train_on_batch_def split: prod.splits)

lemma report_fields:
  "trace (report env e dl gl s) = trace s @ (if e mod 100 = 0 then [Printed (format_line env e dl gl)] else [])"
  "trainable (report env e dl gl s) = trainable s"
  "D_collected (report env e dl gl s) = D_collected s"
  "GAN_collected (report env e dl gl s) = GAN_collected s"
  "weights (report env e dl gl s) = weights s"
  "optimizer (report env e dl gl s) = optimizer s"
  "dloss (report env e dl gl s) = dloss s"
  "gloss (report env e dl gl s) = gloss s"
  by (simp_all add: report_def)

lemma generate_fields:
  "fst (generate env k N s) = map (forward_G env (weights s Gnet)) (take_rows k N (rand_normals s))"
  "weights (snd (generate env k N s)) = weights s"
  "optimizer (snd (generate env k N s)) = optimizer s"
  "trainable (snd (generate env k N s)) = trainable s"
  "D_collected (snd (generate env k N s)) = D_collected s"
  "GAN_collected (snd (generate env k N s)) = GAN_collected s"
  "rand_ints (snd (generate env k N s)) = rand_ints s"
  "rand_normals (snd (generate env k N s)) = sdrop (k * N) (rand_normals s)"
  "dloss (snd (generate env k N s)) = dloss s"
  "gloss (snd (generate env k N s)) = gloss s"
  "trace (snd (generate env k N s)) =
     trace s @ [PredictG (take_rows k N (rand_normals s)) (fst (generate env k N s))]"
  by (simp_all add: generate_eq)

lemma D_train_optimizer:
  "optimizer (snd (D_train_on_batch env x y s)) = fst (snd (fit_D env (weights s) (optimizer s) x y))"
  by (simp add: D_train_on_batch_def split: prod.splits)

lemma GAN_train_optimizer:
  "optimizer (snd (full_gan_train_on_batch env x y s)) = fst (snd (fit_GAN env (weights s) (optimizer s) x y))"
  by (simp add: full_gan_train_on_batch_def split: prod.splits)

lemma printed_lines_append: "printed_lines (xs @ ys) = printed_lines xs @ printed_lines ys"
  by (induction xs rule: printed_lines.induct) simp_all

text \<open>
  One pass through the loop body from a state \<open>s\<close>, on a dataset that has an image: the
  states \<open>s2\<close> to \<open>s6\<close> are those in which the calls are made and which they leave.
\<close>

lemma epoch_body_steps:
  fixes env :: "('w, 'o, 'a, 'z, 'm::{plus,times}) env"
  assumes M: "0 < n_imgs X"
  obtains real z16 fake rl fl z32 gl s2 s3 s4 s5 s6 s' where
    "epoch_body env X N e s = Inr s'"
    "length real = half_batch_size"
    "set real \<subseteq> image_at X ` {..<n_imgs X}"
    "z16 = take_rows half_batch_size N (rand_normals s)"
    "fake = map (forward_G env (weights s Gnet)) z16"
    "z32 = take_rows batch_size N (sdrop (half_batch_size * N) (rand_normals s))"
    "generate env half_batch_size N (s\<lparr> rand_ints := sdrop half_batch_size (rand_ints s) \<rparr>)
       = (fake, s2)"
    "D_train_on_batch env real (np_ones half_batch_size) s2 = (rl, s3)"
    "D_train_on_batch env fake (np_zeros half_batch_size) s3 = (fl, s4)"
    "np_random_normal batch_size N s4 = (z32, s5)"
    "full_gan_train_on_batch env z32 (np_ones batch_size) s5 = (gl, s6)"
    "s' = report env e (average env rl fl) gl
            (s6\<lparr> dloss := Some (average env rl fl), gloss := Some gl \<rparr>)"
    "trace s' = trace s @ [PredictG z16 fake,
                          TrainD real (np_ones half_batch_size) rl,
                          TrainD fake (np_zeros half_batch_size) fl,
                          TrainGan z32 (np_ones batch_size) gl]
                       @ (if e mod 100 = 0
                          then [Printed (format_line env e (average env rl fl) gl)] else [])"
proof -
  define idxs where "idxs = map (\<lambda>v. v mod n_imgs X) (stake half_batch_size (rand_ints s))"
  define s1 where "s1 = s\<lparr> rand_ints := sdrop half_batch_size (rand_ints s) \<rparr>"
  define real where "real = map (image_at X) idxs"
  define z16 where "z16 = take_rows half_batch_size N (rand_normals s)"
  define fake where "fake = map (forward_G env (weights s Gnet)) z16"
  define s2 where "s2 = snd (generate env half_batch_size N s1)"
  define rl where "rl = fst (D_train_on_batch env real (np_ones half_batch_size) s2)"
  define s3 where "s3 = snd (D_train_on_batch env real (np_ones half_batch_size) s2)"
  define fl where "fl = fst (D_train_on_batch env fake (np_zeros half_batch_size) s3)"
  define s4 where "s4 = snd (D_train_on_batch env fake (np_zeros half_batch_size) s3)"
  define z32 where "z32 = take_rows batch_size N (sdrop (half_batch_size * N) (rand_normals s))"
  define s5 where "s5 = snd (np_random_normal batch_size N s4)"
  define gl where "gl = fst (full_gan_train_on_batch env z32 (np_ones batch_size) s5)"
  define s6 where "s6 = snd (full_gan_train_on_batch env z32 (np_ones batch_size) s5)"
  define s' where "s' = report env e (average env rl fl) gl
                          (s6\<lparr> dloss := Some (average env rl fl), gloss := Some gl \<rparr>)"
  have r1: "np_random_randint (n_imgs X) half_batch_size s = Inr (idxs, s1)"
    using M by (simp add: np_random_randint_def idxs_def s1_def)
  have r2: "fancy_index X idxs = Inr real"
    using M by (simp add: fancy_index_def list_all_iff idxs_def real_def)
  have r3: "generate env half_batch_size N s1 = (fake, s2)"
    by (simp add: generate_eq s2_def fake_def z16_def s1_def)
  have r4: "D_train_on_batch env real (np_ones half_batch_size) s2 = (rl, s3)"
    by (simp add: rl_def s3_def)
  have r5: "D_train_on_batch env fake (np_zeros half_batch_size) s3 = (fl, s4)"
    by (simp add: fl_def s4_def)
  have "rand_normals s4 = sdrop (half_batch_size * N) (rand_normals s)"
    by (simp add: s4_def s3_def D_train_fields s2_def generate_fields s1_def)
  then have r6: "np_random_normal batch_size N s4 = (z32, s5)"
    by (simp add: z32_def s5_def np_random_normal_def)
  have r7: "full_gan_train_on_batch env z32 (np_ones batch_size) s5 = (gl, s6)"
    by (simp add: gl_def s6_def)
  have run: "epoch_body env X N e s = Inr s'"
    by (simp add: epoch_body_def r1 r2 r3 r4 r5 r6 r7 s'_def)
  have lr: "length real = half_batch_size"
    by (simp add: real_def idxs_def)
  have sr: "set real \<subseteq> image_at X ` {..<n_imgs X}"
    using M by (auto simp: real_def idxs_def)
  have t2: "trace s2 = trace s @ [PredictG z16 fake]"
    by (simp add: s2_def generate_eq fake_def z16_def s1_def)
  have t3: "trace s3 = trace s2 @ [TrainD real (np_ones half_batch_size) rl]"
    by (simp add: s3_def rl_def D_train_fields)
  have t4: "trace s4 = trace s3 @ [TrainD fake (np_zeros half_batch_size) fl]"
    by (simp add: s4_def fl_def D_train_fields)
  have t5: "trace s5 = trace s4"
    by (simp add: s5_def np_random_normal_snd)
  have t6: "trace s6 = trace s5 @ [TrainGan z32 (np_ones batch_size) gl]"
    by (simp add: s6_def gl_def GAN_train_fields)
  have tr: "trace s' = trace s @ [PredictG z16 fake,
                          TrainD real (np_ones half_batch_size) rl,
                          TrainD fake (np_zeros half_batch_size) fl,
                          TrainGan z32 (np_ones batch_size) gl]
                       @ (if e mod 100 = 0
                          then [Printed (format_line env e (average env rl fl) gl)] else [])"
    by (simp add: s'_def report_fields t6 t5 t4 t3 t2)
  show thesis
    using that [OF run lr sr z16_def fake_def z32_def r3 [unfolded s1_def] r4 r5 r6 r7 s'_def tr] .
qed

lemma epoch_body_positive: "epoch_body env X N e s = Inr s' \<Longrightarrow> 0 < n_imgs X"
  by (cases "n_imgs X = 0") (simp_all add: epoch_body_def np_random_randint_def)

lemma epoch_body_trace:
  fixes env :: "('w, 'o, 'a, 'z, 'm::{plus,times}) env"
  assumes "epoch_body env X N e s = Inr s'"
  shows "\<exists>real z16 fake rl fl z32 gl.
    trace s' = trace s @ [PredictG z16 fake,
                          TrainD real (np_ones half_batch_size) rl,
                          TrainD fake (np_zeros half_batch_size) fl,
                          TrainGan z32 (np_ones batch_size) gl]
                       @ (if e mod 100 = 0
                          then [Printed (format_line env e (average env rl fl) gl)] else [])"
proof (rule epoch_body_steps [OF epoch_body_positive [OF assms], of env N e s])
  fix real z16 fake rl fl z32 gl and t :: "('w, 'o, 'a, 'z, 'm) state"
  assume "epoch_body env X N e s = Inr t"
    and "trace t = trace s @ [PredictG z16 fake,
                          TrainD real (np_ones half_batch_size) rl,
                          TrainD fake (np_zeros half_batch_size) fl,
                          TrainGan z32 (np_ones batch_size) gl]
                       @ (if e mod 100 = 0
                          then [Printed (format_line env e (average env rl fl) gl)] else [])"
  with assms have "trace s' = trace s @ [PredictG z16 fake,
                          TrainD real (np_ones half_batch_size) rl,
                          TrainD fake (np_zeros half_batch_size) fl,
                          TrainGan z32 (np_ones batch_size) gl]
                       @ (if e mod 100 = 0
                          then [Printed (format_line env e (average env rl fl) gl)] else [])"
    by simp
  then show ?thesis by (intro exI)
qed

lemma epoch_body_wiring:
  fixes env :: "('w, 'o, 'a, 'z, 'm::{plus,times}) env"
  assumes "epoch_body env X N e s = Inr s'"
  shows "trainable s' = trainable s \<and> D_collected s' = D_collected s \<and>
         GAN_collected s' = GAN_collected s"
proof (rule epoch_body_steps [OF epoch_body_positive [OF assms], of env N e s])
  fix real fake :: "'a list list" and z32 :: "'z list list" and rl fl gl :: "'m \<times> 'm"
    and s2 s3 s4 s5 s6 t :: "('w, 'o, 'a, 'z, 'm) state"
  assume f: "epoch_body env X N e s = Inr t"
    "generate env half_batch_size N (s\<lparr> rand_ints := sdrop half_batch_size (rand_ints s) \<rparr>)
       = (fake, s2)"
    "D_train_on_batch env real (np_ones half_batch_size) s2 = (rl, s3)"
    "D_train_on_batch env fake (np_zeros half_batch_size) s3 = (fl, s4)"
    "np_random_normal batch_size N s4 = (z32, s5)"
    "full_gan_train_on_batch env z32 (np_ones batch_size) s5 = (gl, s6)"
    "t = report env e (average env rl fl) gl
            (s6\<lparr> dloss := Some (average env rl fl), gloss := Some gl \<rparr>)"
  have s2: "s2 = snd (generate env half_batch_size N
                       (s\<lparr> rand_ints := sdrop half_batch_size (rand_ints s) \<rparr>))"
    and s3: "s3 = snd (D_train_on_batch env real (np_ones half_batch_size) s2)"
    and s4: "s4 = snd (D_train_on_batch env fake (np_zeros half_batch_size) s3)"
    and s5: "s5 = snd (np_random_normal batch_size N s4)"
    and s6: "s6 = snd (full_gan_train_on_batch env z32 (np_ones batch_size) s5)"
    using f by simp_all
  have "trainable t = trainable s \<and> D_collected t = D_collected s \<and>
        GAN_collected t = GAN_collected s"
    unfolding f(7) s6 s5 s4 s3 s2
    by (simp add: report_fields GAN_train_fields np_random_normal_snd D_train_fields generate_fields)
  with f(1) assms show ?thesis by simp
qed

section \<open>Facts about the loop\<close>

lemma train_loop_0: "train_loop env X N 0 s = Inr s"
  by (simp add: train_loop_def)

lemma train_loop_Suc:
  "train_loop env X N (Suc n) s =
     (case train_loop env X N n s of Inl e \<Rightarrow> Inl e | Inr s' \<Rightarrow> epoch_body env X N n s')"
  by (simp add: train_loop_def)

lemma train_loop_total:
  fixes env :: "('w, 'o, 'a, 'z, 'm::{plus,times}) env"
  assumes "0 < n_imgs X"
  shows "\<exists>s'. train_loop env X N n s = Inr s'"
proof (induction n)
  case 0
  show ?case by (simp add: train_loop_0)
next
  case (Suc n)
  then obtain t where t: "train_loop env X N n s = Inr t" by blast
  have "\<exists>t'. epoch_body env X N n t = Inr t'"
    by (rule epoch_body_steps [OF assms, of env N n t]) (erule exI)
  with t show ?case by (auto simp: train_loop_Suc)
qed

lemma train_loop_invariant:
  assumes run: "train_loop env X N n s0 = Inr s"
    and base: "P s0"
    and step: "\<And>e t t'. P t \<Longrightarrow> epoch_body env X N e t = Inr t' \<Longrightarrow> P t'"
  shows "P s"
  using run
proof (induction n arbitrary: s)
  case 0
  then show ?case using base by (simp add: train_loop_0)
next
  case (Suc n)
  then obtain t where t: "train_loop env X N n s0 = Inr t" and b: "epoch_body env X N n t = Inr s"
    by (auto simp: train_loop_Suc split: sum.splits)
  from Suc.IH [OF t] step b show ?case by blast
qed

lemma train_loop_wiring:
  assumes "train_loop env X N n s0 = Inr s"
  shows "trainable s = trainable s0 \<and> D_collected s = D_collected s0 \<and> GAN_collected s = GAN_collected s0"
  by (rule train_loop_invariant [OF assms]) (auto dest: epoch_body_wiring)

lemma hundreds_Suc:
  "(Suc n + 99) div 100 = (n + 99) div 100 + (if n mod 100 = 0 then 1 else 0)"
proof -
  obtain q r where n: "n = 100 * q + r" and r: "r < 100"
    by (metis mod_less_divisor mult_div_mod_eq zero_less_numeral)
  show ?thesis
  proof (cases "r = 0")
    case True
    then show ?thesis by (simp add: n)
  next
    case False
    have a: "(100 * q + r + 99) div 100 = q + 1"
      using r False by (intro div_nat_eqI) simp_all
    have b: "(Suc (100 * q + r) + 99) div 100 = q + 1"
      using r False by (intro div_nat_eqI) simp_all
    show ?thesis using a b r False by (simp add: n)
  qed
qed

lemma train_loop_counts:
  fixes env :: "('w, 'o, 'a, 'z, 'm::{plus,times}) env"
  assumes "train_loop env X N n s0 = Inr s"
  shows "length (filter is_D_step (trace s)) = length (filter is_D_step (trace s0)) + 2 * n \<and>
         length (filter is_GAN_step (trace s)) = length (filter is_GAN_step (trace s0)) + n \<and>
         length (printed_lines (trace s)) = length (printed_lines (trace s0)) + (n + 99) div 100"
  using assms
proof (induction n arbitrary: s)
  case 0
  then show ?case by (simp add: train_loop_0)
next
  case (Suc n)
  from Suc.prems obtain t
    where t: "train_loop env X N n s0 = Inr t" and b: "epoch_body env X N n t = Inr s"
    by (auto simp: train_loop_Suc split: sum.splits)
  note d = hundreds_Suc [of n]
  from epoch_body_trace [OF b] obtain real z16 fake rl fl z32 gl where
    tr [simp]: "trace s = trace t @ [PredictG z16 fake,
                          TrainD real (np_ones half_batch_size) rl,
                          TrainD fake (np_zeros half_batch_size) fl,
                          TrainGan z32 (np_ones batch_size) gl]
                       @ (if n mod 100 = 0
                          then [Printed (format_line env n (average env rl fl) gl)] else [])"
    by (elim exE)
  have l1: "length (printed_lines (trace s)) =
      length (printed_lines (trace t)) + (if n mod 100 = 0 then 1 else 0)"
    by (simp add: printed_lines_append)
  have l2: "length (filter is_D_step (trace s)) = length (filter is_D_step (trace t)) + 2"
    by simp
  have l3: "length (filter is_GAN_step (trace s)) = length (filter is_GAN_step (trace t)) + 1"
    by simp
  from Suc.IH [OF t]
  have ih1: "length (filter is_D_step (trace t)) = length (filter is_D_step (trace s0)) + 2 * n"
    and ih2: "length (filter is_GAN_step (trace t)) = length (filter is_GAN_step (trace s0)) + n"
    and ih3: "length (printed_lines (trace t)) = length (printed_lines (trace s0)) + (n + 99) div 100"
    by simp_all
  show ?case
    unfolding l1 l2 l3 d ih1 ih2 ih3 by simp
qed

lemma train_loop_from:
  assumes "e \<le> n"
  shows "train_loop env X N n s0 =
     fold (\<lambda>epoch r. case r of Inl x \<Rightarrow> Inl x | Inr t \<Rightarrow> epoch_body env X N epoch t)
          [e..<n] (train_loop env X N e s0)"
proof -
  have "[0..<n] = [0..<e] @ [e..<n]"
    using upt_add_eq_append [of 0 e "n - e"] assms by simp
  then show ?thesis by (simp add: train_loop_def)
qed

lemma image_at_subset: "set (image_at X i) \<subseteq> set (elems X)"
  unfolding image_at_def by (meson set_take_subset set_drop_subset subset_trans)

lemma notebook_eq:
  assumes "normalise raw = Inr X" "8 \<le> n_rows X * n_cols X"
  shows "notebook env raw w0 o0 ints normals =
     (case train_loop env X (noise_res (n_rows X) (n_cols X)) epochs
             (compile_full_gan (make_full_gan (set_D_trainable False
                (summary Gnet (compile_D (summary Dnet (initial_state w0 o0 ints normals))))))) of
        Inl e \<Rightarrow> Inl e
      | Inr s' \<Rightarrow> Inr (final_samples env (noise_res (n_rows X) (n_cols X)) s'))"
  by (simp add: notebook_def assms build_models_eq)

lemma notebook_small:
  assumes "normalise raw = Inr X" "n_rows X * n_cols X < 8"
  shows "notebook env raw w0 o0 ints normals
     = Inl (if n_rows X = 0 \<or> n_cols X = 0 then ValueError else AssertionError)"
  by (simp add: notebook_def assms build_models_small)

lemma train_loop_no_assignment:
  fixes env :: "('w, 'o, 'a, 'z, 'm::{plus,times}) env"
  assumes "train_loop env X N n s0 = Inr s"
  shows "\<exists>rest. trace s = trace s0 @ rest \<and> filter is_assignment rest = []"
proof (rule train_loop_invariant [OF assms])
  show "\<exists>rest. trace s0 = trace s0 @ rest \<and> filter is_assignment rest = []"
    by simp
next
  fix e and t t' :: "('w, 'o, 'a, 'z, 'm) state"
  assume "\<exists>rest. trace t = trace s0 @ rest \<and> filter is_assignment rest = []"
    and b: "epoch_body env X N e t = Inr t'"
  then obtain rest where rest: "trace t = trace s0 @ rest" "filter is_assignment rest = []"
    by blast
  from epoch_body_trace [OF b] obtain seg where
    seg: "trace t' = trace t @ seg" "filter is_assignment seg = []"
    by (elim exE) simp
  have "trace t' = trace s0 @ (rest @ seg) \<and> filter is_assignment (rest @ seg) = []"
    using rest seg by simp
  then show "\<exists>rest. trace t' = trace s0 @ rest \<and> filter is_assignment rest = []"
    by (rule exI)
qed

lemma show_nat_example: "show_nat 29900 = ''29900''"
  by (simp add: show_nat.simps)

section \<open>A run of the first epoch\<close>

text \<open>
  On the small inputs the body of epoch 0 evaluates: two steps on the discriminator, one on
  the composite model, and the line for epoch 0.
\<close>

lemma funpow_identity: "((\<lambda>a. a) ^^ n) x = x"
  by (induction n) simp_all

lemma stake_sconst: "stake n (sconst x) = replicate n x"
  by (simp add: funpow_identity map_replicate_const)

lemma sdrop_sconst: "sdrop n (sconst x) = sconst x"
  by (induction n) simp_all

lemma take_rows_sconst: "take_rows k n (sconst x) = replicate k (replicate n x)"
proof (induction k)
  case 0
  show ?case by simp
next
  case (Suc k)
  have "take_rows (Suc k) n (sconst x) = stake n (sconst x) # take_rows k n (sdrop n (sconst x))"
    by (rule take_rows.simps)
  then show ?case by (simp only: stake_sconst sdrop_sconst Suc replicate_Suc)
qed

lemma toy_image_0:
  "image_at toy_X 0 =
     [Finite 0, Finite 1, Finite (3602879701896397 / 18014398509481984), Finite 1,
      Finite 0, Finite 0, Finite 1, Finite 1]"
  by (simp add: toy_X_def image_at_def)

lemma first_epoch_on_toy:
  "epoch_body toy_env toy_X 2 0 toy_built =
     Inr (toy_built\<lparr> weights := (\<lambda>k. 0)(Dnet := 2, Gnet := 1), optimizer := 3,
            dloss := Some (1, 1 / 2), gloss := Some (2, 0),
            trace := trace toy_built @
              [PredictG (replicate 16 [0, 0]) (replicate 16 (replicate 8 (Finite 0))),
               TrainD (replicate 16 (image_at toy_X 0)) (replicate 16 1) (1, 1 / 2),
               TrainD (replicate 16 (replicate 8 (Finite 0))) (replicate 16 0) (1, 1 / 2),
               TrainGan (replicate 32 [0, 0]) (replicate 32 1) (2, 0),
               Printed ''0 [D loss: f, acc.: p%] [G loss: f]''] \<rparr>)"
proof -
  have r1: "np_random_randint (n_imgs toy_X) half_batch_size toy_built
            = Inr (replicate 16 0, toy_built)"
    by (simp add: np_random_randint_def toy_X_def toy_built_def half_batch_size_16
          funpow_identity comp_def map_replicate_const)
  have r2: "fancy_index toy_X (replicate 16 0) = Inr (replicate 16 (image_at toy_X 0))"
    by (simp add: fancy_index_def list_all_iff toy_X_def)
  have r3: "generate toy_env half_batch_size 2 toy_built =
      (replicate 16 (replicate 8 (Finite 0)),
       toy_built\<lparr> trace := trace toy_built @
          [PredictG (replicate 16 [0, 0]) (replicate 16 (replicate 8 (Finite 0)))] \<rparr>)"
    by (simp only: generate_eq take_rows_sconst sdrop_sconst)
       (simp add: toy_built_def toy_env_def half_batch_size_16 take_rows_sconst sdrop_sconst
          numeral_2_eq_2)
  show ?thesis
    unfolding epoch_body_def r1 sum.case prod.case r2 r3
    by (simp only: D_train_on_batch_def full_gan_train_on_batch_def np_random_normal_def
          take_rows_sconst sdrop_sconst)
       (simp add: report_def average_def format_line_def show_nat.simps half_batch_size_16
          batch_size_def np_ones_def np_zeros_def masked_def toy_env_def toy_built_def
          fun_eq_iff sdrop_sconst take_rows_sconst numeral_2_eq_2)
qed

section \<open>Facts about the forward pass\<close>

lemma length_dense: "length (dense ar K b x) = min (length K) (length b)"
  by (simp add: dense_def)

lemma length_activate: "length (activate ar a y) = length y"
  by (cases a) simp_all

lemma length_fold_max:
  "\<forall>v\<in>set rest. length v = length y \<Longrightarrow>
   length (fold (\<lambda>v acc. map2 (k_max ar) acc v) rest y) = length y"
  by (induction rest arbitrary: y) simp_all

lemma length_maxout:
  assumes "ys \<noteq> []" "\<forall>y\<in>set ys. length y = n"
  shows "length (maxout ar ys) = n"
proof (cases ys)
  case Nil
  with assms show ?thesis by simp
next
  case (Cons y rest)
  with assms have "\<forall>v\<in>set rest. length v = length y" "length y = n" by simp_all
  then show ?thesis using length_fold_max [of rest y ar] by (simp add: maxout_def Cons)
qed

lemma maxout_dense_length:
  assumes "length fs = 4"
    and "list_all (\<lambda>(K, b). length K = u \<and> length b = u \<and>
                  list_all (\<lambda>col. length col = n) K) fs"
  shows "length (maxout ar (map (\<lambda>(K, b). dense ar K b x) fs)) = u"
proof -
  have ne: "map (\<lambda>(K, b). dense ar K b x) fs \<noteq> []" using assms(1) by auto
  have len: "\<forall>y\<in>set (map (\<lambda>(K, b). dense ar K b x) fs). length y = u"
    using assms(2) by (auto simp add: list_all_iff length_dense)
  show ?thesis by (rule length_maxout [OF ne len])
qed

lemma call_fst:
  assumes "built_for l s b" "layer_output_shape l s = Inr s'"
  shows "fst (call ar b (s, x)) = s'"
proof (cases l)
  case Flatten
  with assms show ?thesis by (cases b) (auto split: if_splits)
next
  case (Dense u a)
  with assms show ?thesis by (cases b) (auto split: if_splits)
next
  case LeakyReLU
  with assms show ?thesis by (cases b) auto
next
  case (MaxoutDense u)
  show ?thesis
  proof (cases b)
    case (BMaxoutDense fs)
    with assms MaxoutDense have fs: "length fs = 4"
      and all: "list_all (\<lambda>(K, b). length K = u \<and> length b = u \<and>
                  list_all (\<lambda>col. length col = prod_list s) K) fs"
      and s': "s' = [u]"
      by (auto split: if_splits)
    show ?thesis
      by (simp add: BMaxoutDense s' Let_def maxout_dense_length [OF fs all])
  qed (use assms MaxoutDense in auto)
next
  case (Reshape t)
  with assms show ?thesis by (cases b) (auto split: if_splits)
qed

lemma call_length:
  assumes "built_for l s b" "layer_output_shape l s = Inr s'" "length x = prod_list s"
  shows "length (snd (call ar b (s, x))) = prod_list s'"
proof (cases l)
  case Flatten
  with assms show ?thesis by (cases b) (auto split: if_splits)
next
  case (Dense u a)
  show ?thesis
  proof (cases b)
    case (BDense K c a')
    with assms Dense have "length s = 1" "length K = u" "length c = u" "s' = butlast s @ [u]"
      by (auto split: if_splits)
    moreover from this obtain n where "s = [n]" by (auto simp add: length_Suc_conv)
    ultimately show ?thesis by (simp add: BDense length_dense length_activate)
  qed (use assms Dense in auto)
next
  case LeakyReLU
  with assms show ?thesis by (cases b) auto
next
  case (MaxoutDense u)
  show ?thesis
  proof (cases b)
    case (BMaxoutDense fs)
    with assms MaxoutDense have fs: "length fs = 4"
      and all: "list_all (\<lambda>(K, b). length K = u \<and> length b = u \<and>
                  list_all (\<lambda>col. length col = prod_list s) K) fs"
      and s': "s' = [u]"
      by (auto split: if_splits)
    show ?thesis
      by (simp add: BMaxoutDense s' Let_def maxout_dense_length [OF fs all])
  qed (use assms MaxoutDense in auto)
next
  case (Reshape t)
  with assms show ?thesis by (cases b) (auto split: if_splits)
qed

lemma call_shape:
  assumes "built_for l s b" "layer_output_shape l s = Inr s'" "length x = prod_list s"
  shows "fst (call ar b (s, x)) = s' \<and> length (snd (call ar b (s, x))) = prod_list s'"
  using call_fst [OF assms(1,2)] call_length [OF assms] by simp

lemma weights_of_Cons:
  "weights_of (l # ls) s bs \<longleftrightarrow>
     (\<exists>b bs' s'. bs = b # bs' \<and> built_for l s b \<and> layer_output_shape l s = Inr s' \<and>
        weights_of ls s' bs')"
  by (cases bs) (auto split: sum.splits)

lemma fold_call_shape:
  assumes "weights_of ls s bs" "length x = prod_list s"
  shows "\<exists>s'. output_shape_from ls s = Inr s' \<and> fst (fold (call ar) bs (s, x)) = s' \<and>
           length (snd (fold (call ar) bs (s, x))) = prod_list s'"
  using assms
proof (induction ls arbitrary: s bs x)
  case Nil
  then show ?case by simp
next
  case (Cons l ls)
  from Cons.prems(1) obtain b bs' s1 where
    bs: "bs = b # bs'" and b: "built_for l s b" and s1: "layer_output_shape l s = Inr s1"
    and rest: "weights_of ls s1 bs'"
    unfolding weights_of_Cons by blast
  obtain y where y: "call ar b (s, x) = (s1, y)" "length y = prod_list s1"
    using call_shape [OF b s1 Cons.prems(2), of ar] by (cases "call ar b (s, x)") simp
  from Cons.IH [OF rest y(2)] show ?case by (simp add: bs s1 y(1))
qed

lemma forward_shape:
  assumes "weights_of (layers m) (input_shape m) ps" "length x = prod_list (input_shape m)"
  shows "\<exists>s'. output_shape m = Inr s' \<and> fst (forward ar ps (input_shape m, x)) = s' \<and>
           length (snd (forward ar ps (input_shape m, x))) = prod_list s'"
  unfolding forward_def output_shape_def
  using fold_call_shape [OF assms(1), of "map (k_cast ar) x" ar] assms(2) by simp

lemma weights_of_G_size:
  assumes "weights_of (layers (G_model H W)) (input_shape (G_model H W)) ps"
  shows "4 \<le> H * W"
proof -
  have "noise_res H W \<noteq> 0"
    using assms by (auto simp add: G_model_def weights_of_Cons split: if_splits)
  then show ?thesis by (simp add: noise_res_def res_def div_greater_zero_iff)
qed

lemma weights_of_D_size:
  assumes "weights_of (layers (D_model H W)) (input_shape (D_model H W)) ps"
  shows "8 \<le> H * W"
proof -
  have "res H W div 8 \<noteq> 0"
    using assms by (auto simp add: D_model_def weights_of_Cons split: if_splits)
  then show ?thesis by (simp add: res_def div_greater_zero_iff)
qed

lemma G_forward_shape:
  assumes "weights_of (layers (G_model H W)) (input_shape (G_model H W)) ps"
    and "length z = noise_res H W"
  shows "fst (forward ar ps ([noise_res H W], z)) = [H, W] \<and>
         length (snd (forward ar ps ([noise_res H W], z))) = H * W"
proof -
  have "length z = prod_list (input_shape (G_model H W))"
    using assms(2) by (simp add: G_input_shape)
  from forward_shape [OF assms(1) this, of ar]
  show ?thesis
    by (simp add: G_output_shape [OF weights_of_G_size [OF assms(1)]] G_input_shape)
qed

text \<open>
  A list of layers that ends in a \<open>Dense\<close> layer of one unit with the sigmoid returns one
  value, the sigmoid of that unit's pre-activation.
\<close>

lemma fold_call_sigmoid:
  assumes "weights_of (ls @ [Dense 1 Sigmoid]) s bs"
  shows "\<exists>z. fold (call ar) bs (s, x) = ([1], [k_sigmoid ar z])"
  using assms
proof (induction ls arbitrary: s bs x)
  case Nil
  from Nil obtain b where bs: "bs = [b]" and b: "built_for (Dense 1 Sigmoid) s b"
    by (auto simp add: weights_of_Cons)
  from b obtain K c where bd: "b = BDense K c Sigmoid" and len: "length s = 1"
    "length K = 1" "length c = 1"
    by (cases b) auto
  from len obtain n col v where "s = [n]" "K = [col]" "c = [v]"
    by (auto simp add: length_Suc_conv)
  then have "fold (call ar) bs (s, x) = ([1], [k_sigmoid ar (k_bias_add ar (k_dot ar x col) v)])"
    by (simp add: bs bd dense_def)
  then show ?case by (rule exI)
next
  case (Cons l ls)
  from Cons.prems obtain b bs' s1 where
    bs: "bs = b # bs'" and b: "built_for l s b" and s1: "layer_output_shape l s = Inr s1"
    and rest: "weights_of (ls @ [Dense 1 Sigmoid]) s1 bs'"
    by (auto simp add: weights_of_Cons)
  obtain y where c: "call ar b (s, x) = (s1, y)"
    using call_fst [OF b s1, of ar x] by (cases "call ar b (s, x)") simp
  from Cons.IH [OF rest, of y] show ?case by (simp add: bs c)
qed

lemma D_forward_sigmoid:
  assumes "weights_of (layers (D_model H W)) (input_shape (D_model H W)) ps"
  shows "\<exists>z. forward ar ps ([H, W], x) = ([1], [k_sigmoid ar z])"
proof -
  have l: "layers (D_model H W) =
      [Flatten, Dense (res H W div 2) Linear, LeakyReLU, Dense (res H W div 4) Linear,
       LeakyReLU, Dense (res H W div 8) Linear, LeakyReLU] @ [Dense 1 Sigmoid]"
    by (simp add: D_model_def)
  have w: "weights_of ([Flatten, Dense (res H W div 2) Linear, LeakyReLU,
       Dense (res H W div 4) Linear, LeakyReLU, Dense (res H W div 8) Linear, LeakyReLU]
       @ [Dense 1 Sigmoid]) [H, W] ps"
    using assms unfolding l D_input_shape .
  have "\<exists>z. fold (call ar) ps ([H, W], map (k_cast ar) x) = ([1], [k_sigmoid ar z])"
    by (rule fold_call_sigmoid [OF w])
  then show ?thesis by (simp add: forward_def)
qed

section \<open>Facts about the arithmetic on 32-bit floats\<close>

lemma float32_0: "float32 0 = Finite 0"
  by (simp add: float32_def ieee_round_def)

lemma float32_1: "float32 1 = Finite 1"
  using ieee_round_unit [of 1 "- 126" 128 23] ieee_round_ge_one [of 1 "- 126" 23 128]
  by (auto simp: float32_def)

lemma float32_unit:
  assumes "0 \<le> q" "q \<le> 1"
  shows "\<exists>r. float32 q = Finite r \<and> 0 \<le> r \<and> r \<le> 1"
  unfolding float32_def by (rule ieee_round_unit [OF assms]) simp_all

lemma floor_log2_200: "\<lfloor>log 2 (200 :: real)\<rfloor> = 7"
proof -
  have "(2::real) powr of_int 7 \<le> 200 \<and> 200 < (2::real) powr (of_int 7 + 1)"
    by simp
  then show ?thesis
    using floor_log_eq_powr_iff [of "200 :: real" 2 7] by simp
qed

lemma float32_200: "float32 200 = Finite 200"
proof -
  have m: "max \<lfloor>log 2 \<bar>200 :: real\<bar>\<rfloor> (- 126) = 7" by (simp add: floor_log2_200)
  have u: "(2::real) powr (of_int 7 - of_nat 23) = 1 / 65536"
    by (simp add: powr_minus_divide)
  have q: "\<bar>200 :: real\<bar> / (1 / 65536) = of_int 13107200" by simp
  show ?thesis
    unfolding float32_def ieee_round_def Let_def m u q round_half_even_of_int by simp
qed

text \<open>A positive number below half the least subnormal number is rounded to 0.\<close>

lemma ieee_round_underflow:
  assumes "0 < x" "x < 2 powr (of_int emin - of_nat p - 1)"
  shows "ieee_round p emin emax x = Finite 0"
proof -
  define ulp :: real where "ulp = 2 powr (of_int emin - of_nat p)"
  have ulp: "0 < ulp" by (simp add: ulp_def)
  have "2 powr of_int \<lfloor>log 2 x\<rfloor> < (2::real) powr (of_int emin - of_nat p - 1)"
    using binade_bounds(1) [OF assms(1)] assms(2) by linarith
  then have "of_int \<lfloor>log 2 x\<rfloor> < (of_int emin - of_nat p - 1 :: real)"
    by (simp only: powr_less_cancel_iff one_less_numeral_iff semiring_norm)
  then have "of_int \<lfloor>log 2 x\<rfloor> < (of_int emin :: real)" by linarith
  then have "\<lfloor>log 2 x\<rfloor> < emin" by (simp only: of_int_less_iff)
  then have m: "max \<lfloor>log 2 x\<rfloor> emin = emin" by simp
  have "(2::real) powr (of_int emin - of_nat p - 1) = ulp / 2"
    by (simp add: ulp_def powr_diff)
  then have "x < ulp / 2" using assms(2) by simp
  then have "x / ulp < ulp / 2 / ulp" using ulp by (intro divide_strict_right_mono)
  moreover have "ulp / 2 / ulp = 1 / 2" using ulp by simp
  ultimately have q: "0 \<le> x / ulp" "x / ulp < 1 / 2"
    using ulp assms(1) by simp_all
  have f: "\<lfloor>x / ulp\<rfloor> = 0"
  proof (rule floor_unique)
    show "of_int 0 \<le> x / ulp" using q(1) by simp
    show "x / ulp < of_int 0 + 1" using q(2) by linarith
  qed
  have r: "round_half_even (x / ulp) = 0"
    using q by (simp add: round_half_even_def f)
  have ax: "\<bar>x\<bar> = x" using assms(1) by simp
  show ?thesis
    unfolding ieee_round_def Let_def ax m ulp_def [symmetric] r
    using assms(1) zero_less_power [of "2 :: real" emax] by (simp add: not_le)
qed

lemma exp_neg_200_small: "exp (- 200 :: real) \<le> 1 / 2 ^ 200"
proof -
  have "(2::real) \<le> exp 1" using exp_ge_add_one_self [of 1] by simp
  then have "(2::real) ^ 200 \<le> exp 1 ^ 200" by (intro power_mono) simp_all
  also have "\<dots> = exp (200 :: real)" using exp_of_nat_mult [of 200 "1 :: real"] by simp
  finally have "(2::real) ^ 200 \<le> exp 200" .
  then have "1 / exp (200 :: real) \<le> 1 / 2 ^ 200"
    by (intro divide_left_mono) simp_all
  then show ?thesis by (simp add: exp_minus inverse_eq_divide)
qed

lemma float32_exp_neg_200: "float32 (exp (- 200)) = Finite 0"
proof -
  have "(1::real) / 2 ^ 200 < 1 / 2 ^ 150" by simp
  moreover have "(2::real) powr (of_int (- 126) - of_nat 23 - 1) = 1 / 2 ^ 150"
    by (simp add: powr_minus_divide)
  ultimately have "exp (- 200 :: real) < 2 powr (of_int (- 126) - of_nat 23 - 1)"
    using exp_neg_200_small by linarith
  then show ?thesis
    unfolding float32_def by (intro ieee_round_underflow) simp_all
qed

lemma sigmoid32_200: "sigmoid32 (Finite 200) = Finite 1"
  by (simp add: sigmoid32_def float32_exp_neg_200 float32_1)

lemma sigmoid32_NaN: "sigmoid32 NaN = NaN"
  by (simp add: sigmoid32_def)

lemma sigmoid32_range:
  assumes "v \<noteq> NaN"
  shows "\<exists>r. sigmoid32 v = Finite r \<and> 0 \<le> r \<and> r \<le> 1"
proof (cases v)
  case (Finite x)
  have "float32 (exp (- x)) = PosInf \<or> (\<exists>e. float32 (exp (- x)) = Finite e \<and> 0 \<le> e)"
    unfolding float32_def by (rule ieee_round_nonneg) simp
  then show ?thesis
  proof
    assume "float32 (exp (- x)) = PosInf"
    then show ?thesis by (simp add: sigmoid32_def Finite)
  next
    assume "\<exists>e. float32 (exp (- x)) = Finite e \<and> 0 \<le> e"
    then obtain e where e: "float32 (exp (- x)) = Finite e" "0 \<le> e" by blast
    have "float32 (1 + e) = PosInf \<or> (\<exists>d. float32 (1 + e) = Finite d \<and> 1 \<le> d)"
      unfolding float32_def using e(2) by (intro ieee_round_ge_one) simp_all
    then show ?thesis
    proof
      assume "float32 (1 + e) = PosInf"
      then show ?thesis by (simp add: sigmoid32_def Finite e)
    next
      assume "\<exists>d. float32 (1 + e) = Finite d \<and> 1 \<le> d"
      then obtain d where d: "float32 (1 + e) = Finite d" "1 \<le> d" by blast
      have "\<exists>r. float32 (1 / d) = Finite r \<and> 0 \<le> r \<and> r \<le> 1"
        using d(2) by (intro float32_unit) simp_all
      moreover have "sigmoid32 v = float32 (1 / d)"
        using d by (simp add: sigmoid32_def Finite e)
      ultimately show ?thesis by simp
    qed
  qed
next
  case PosInf
  then show ?thesis by (simp add: sigmoid32_def float32_1)
next
  case NegInf
  then show ?thesis by (simp add: sigmoid32_def)
next
  case NaN
  with assms show ?thesis by simp
qed

section \<open>The forward pass on the small parameters\<close>

lemma toy_image_1:
  "image_at toy_X 1 =
     [Finite 1, Finite 0, Finite 0, Finite 1, Finite 1, Finite 1, Finite 0, Finite 0]"
  by (simp add: toy_X_def image_at_def)

lemma replicate_2: "replicate 2 x = [x, x]"
  by (simp add: numeral_eq_Suc)

lemma replicate_4: "replicate 4 x = [x, x, x, x]"
  by (simp add: numeral_eq_Suc)

lemma replicate_8: "replicate 8 x = [x, x, x, x, x, x, x, x]"
  by (simp add: numeral_eq_Suc)

lemma toy_G_weights_built:
  "weights_of (layers (G_model 2 4)) (input_shape (G_model 2 4)) toy_G_weights"
  by (simp add: G_model_def toy_G_weights_def res_def noise_res_def img_shape_def list_all_iff)

lemma toy_D_weights_built:
  "weights_of (layers (D_model 2 4)) (input_shape (D_model 2 4)) toy_D_weights"
  by (simp add: D_model_def toy_D_weights_def res_def img_shape_def list_all_iff)

lemma toy_D_forward:
  "forward float32_arith toy_D_weights ([2, 4], image_at toy_X 1) = ([1], [Finite 1])"
proof -
  have x: "map (k_cast float32_arith) (image_at toy_X 1) =
      [Finite 1, Finite 0, Finite 0, Finite 1, Finite 1, Finite 1, Finite 0, Finite 0]"
    unfolding toy_image_1 by (simp add: float32_arith_def float32_0 float32_1)
  show ?thesis
    unfolding forward_def fst_conv snd_conv x
    by (simp add: toy_D_weights_def float32_arith_def dense_def dot32_def
        float32_0 float32_200 sigmoid32_200 replicate_2 replicate_4 replicate_8)
qed

section \<open>The claims\<close>

text \<open>
  C1. On a dataset that has an image, all 30000 epochs run, and the loop makes 60000
  training calls on the discriminator and 30000 on the composite model. In each epoch
  \<open>e\<close>, between the state \<open>s\<close> before it and the state \<open>s'\<close> after it, the calls are,
  in this order: the forward pass of the generator on 16 noise rows, a training step of
  the discriminator on 16 images of the dataset with 16 labels 1, a training step of the
  discriminator on the 16 generated images with 16 labels 0, and a training step of the
  composite model on 32 noise rows, drawn after the first 16, with 32 labels 1. The
  epoch's \<open>dloss\<close> is the pair of \<open>half * (rloss + floss)\<close> for loss and accuracy.
\<close>

theorem epoch_training_steps:
  fixes env :: "('w, 'o, 'a, 'z, 'm::{plus,times}) env"
  assumes "0 < n_imgs X" and "e < epochs"
  shows "\<exists>s s' final real z16 fake rl fl z32 gl.
    train_loop env X N e s0 = Inr s \<and>
    train_loop env X N (Suc e) s0 = Inr s' \<and>
    train_loop env X N epochs s0 = Inr final \<and>
    fold (\<lambda>epoch r. case r of Inl x \<Rightarrow> Inl x | Inr t \<Rightarrow> epoch_body env X N epoch t)
         [Suc e..<epochs] (Inr s') = Inr final \<and>
    length (filter is_D_step (trace final)) = length (filter is_D_step (trace s0)) + 60000 \<and>
    length (filter is_GAN_step (trace final)) = length (filter is_GAN_step (trace s0)) + 30000 \<and>
    trace s' = trace s @ [PredictG z16 fake,
                          TrainD real (replicate 16 1) rl,
                          TrainD fake (replicate 16 0) fl,
                          TrainGan z32 (replicate 32 1) gl]
                       @ (if e mod 100 = 0
                          then [Printed (format_line env e
                                  (half env * (fst rl + fst fl), half env * (snd rl + snd fl)) gl)]
                          else []) \<and>
    length real = 16 \<and> set real \<subseteq> image_at X ` {..<n_imgs X} \<and>
    z16 = take_rows 16 N (rand_normals s) \<and>
    fake = map (forward_G env (weights s Gnet)) z16 \<and> length fake = 16 \<and>
    z32 = take_rows 32 N (sdrop (16 * N) (rand_normals s)) \<and> length z32 = 32 \<and>
    (\<forall>r\<in>set z32. length r = N) \<and>
    dloss s' = Some (half env * (fst rl + fst fl), half env * (snd rl + snd fl)) \<and>
    gloss s' = Some gl"
proof -
  obtain s where s: "train_loop env X N e s0 = Inr s"
    using train_loop_total [OF assms(1)] by blast
  obtain final where final: "train_loop env X N epochs s0 = Inr final"
    using train_loop_total [OF assms(1)] by blast
  have cnt: "length (filter is_D_step (trace final)) = length (filter is_D_step (trace s0)) + 60000"
    "length (filter is_GAN_step (trace final)) = length (filter is_GAN_step (trace s0)) + 30000"
    using train_loop_counts [OF final] by (simp_all add: epochs_def)
  show ?thesis
  proof (rule epoch_body_steps [OF assms(1), of env N e s])
    fix real fake :: "'a list list" and z16 z32 :: "'z list list" and rl fl gl :: "'m \<times> 'm"
      and s2 s3 s4 s5 s6 s' :: "('w, 'o, 'a, 'z, 'm) state"
    assume run: "epoch_body env X N e s = Inr s'"
      and lr: "length real = half_batch_size"
      and sr: "set real \<subseteq> image_at X ` {..<n_imgs X}"
      and z16: "z16 = take_rows half_batch_size N (rand_normals s)"
      and fake: "fake = map (forward_G env (weights s Gnet)) z16"
      and z32: "z32 = take_rows batch_size N (sdrop (half_batch_size * N) (rand_normals s))"
      and s': "s' = report env e (average env rl fl) gl
            (s6\<lparr> dloss := Some (average env rl fl), gloss := Some gl \<rparr>)"
      and tr: "trace s' = trace s @ [PredictG z16 fake,
                          TrainD real (np_ones half_batch_size) rl,
                          TrainD fake (np_zeros half_batch_size) fl,
                          TrainGan z32 (np_ones batch_size) gl]
                       @ (if e mod 100 = 0
                          then [Printed (format_line env e (average env rl fl) gl)] else [])"
    have next_state: "train_loop env X N (Suc e) s0 = Inr s'"
      by (simp add: train_loop_Suc s run)
    have rest: "fold (\<lambda>epoch r. case r of Inl x \<Rightarrow> Inl x | Inr t \<Rightarrow> epoch_body env X N epoch t)
         [Suc e..<epochs] (Inr s') = Inr final"
      using train_loop_from [of "Suc e" epochs env X N s0] assms(2)
      by (simp only: next_state final Suc_leI)
    have tr': "trace s' = trace s @ [PredictG z16 fake,
                          TrainD real (replicate 16 1) rl,
                          TrainD fake (replicate 16 0) fl,
                          TrainGan z32 (replicate 32 1) gl]
                       @ (if e mod 100 = 0
                          then [Printed (format_line env e
                                  (half env * (fst rl + fst fl), half env * (snd rl + snd fl)) gl)]
                          else [])"
      using tr by (simp add: np_ones_def np_zeros_def half_batch_size_16 batch_size_def average_def)
    have lr': "length real = 16" using lr by (simp add: half_batch_size_16)
    have z16': "z16 = take_rows 16 N (rand_normals s)"
      using z16 by (simp add: half_batch_size_16)
    have lf: "length fake = 16"
      by (simp add: fake z16' length_take_rows)
    have z32': "z32 = take_rows 32 N (sdrop (16 * N) (rand_normals s))"
      using z32 by (simp add: half_batch_size_16 batch_size_def)
    have lz: "length z32 = 32" "\<forall>r\<in>set z32. length r = N"
      by (auto simp: z32' length_take_rows take_rows_row_length)
    have dl: "dloss s' = Some (half env * (fst rl + fst fl), half env * (snd rl + snd fl))"
      "gloss s' = Some gl"
      by (simp_all add: s' report_fields average_def)
    have "train_loop env X N e s0 = Inr s \<and>
      train_loop env X N (Suc e) s0 = Inr s' \<and>
      train_loop env X N epochs s0 = Inr final \<and>
      fold (\<lambda>epoch r. case r of Inl x \<Rightarrow> Inl x | Inr t \<Rightarrow> epoch_body env X N epoch t)
           [Suc e..<epochs] (Inr s') = Inr final \<and>
      length (filter is_D_step (trace final)) = length (filter is_D_step (trace s0)) + 60000 \<and>
      length (filter is_GAN_step (trace final)) = length (filter is_GAN_step (trace s0)) + 30000 \<and>
      trace s' = trace s @ [PredictG z16 fake,
                          TrainD real (replicate 16 1) rl,
                          TrainD fake (replicate 16 0) fl,
                          TrainGan z32 (replicate 32 1) gl]
                       @ (if e mod 100 = 0
                          then [Printed (format_line env e
                                  (half env * (fst rl + fst fl), half env * (snd rl + snd fl)) gl)]
                          else []) \<and>
      length real = 16 \<and> set real \<subseteq> image_at X ` {..<n_imgs X} \<and>
      z16 = take_rows 16 N (rand_normals s) \<and>
      fake = map (forward_G env (weights s Gnet)) z16 \<and> length fake = 16 \<and>
      z32 = take_rows 32 N (sdrop (16 * N) (rand_normals s)) \<and> length z32 = 32 \<and>
      (\<forall>r\<in>set z32. length r = N) \<and>
      dloss s' = Some (half env * (fst rl + fst fl), half env * (snd rl + snd fl)) \<and>
      gloss s' = Some gl"
      using s next_state final rest cnt tr' lr' sr z16' fake lf z32' lz dl
      by (intro conjI)
    then show ?thesis by (intro exI)
  qed
qed

theorem epoch_training_steps_witness:
  "0 < n_imgs toy_X \<and> (0::nat) < epochs \<and>
   (\<exists>s s' final real z16 fake rl fl z32 gl.
    train_loop toy_env toy_X 2 0 toy_built = Inr s \<and>
    train_loop toy_env toy_X 2 (Suc 0) toy_built = Inr s' \<and>
    train_loop toy_env toy_X 2 epochs toy_built = Inr final \<and>
    fold (\<lambda>epoch r. case r of Inl x \<Rightarrow> Inl x | Inr t \<Rightarrow> epoch_body toy_env toy_X 2 epoch t)
         [Suc 0..<epochs] (Inr s') = Inr final \<and>
    length (filter is_D_step (trace final)) = length (filter is_D_step (trace toy_built)) + 60000 \<and>
    length (filter is_GAN_step (trace final)) = length (filter is_GAN_step (trace toy_built)) + 30000 \<and>
    trace s' = trace s @ [PredictG z16 fake,
                          TrainD real (replicate 16 1) rl,
                          TrainD fake (replicate 16 0) fl,
                          TrainGan z32 (replicate 32 1) gl]
                       @ (if (0::nat) mod 100 = 0
                          then [Printed (format_line toy_env 0
                                  (half toy_env * (fst rl + fst fl), half toy_env * (snd rl + snd fl)) gl)]
                          else []) \<and>
    length real = 16 \<and> set real \<subseteq> image_at toy_X ` {..<n_imgs toy_X} \<and>
    z16 = take_rows 16 2 (rand_normals s) \<and>
    fake = map (forward_G toy_env (weights s Gnet)) z16 \<and> length fake = 16 \<and>
    z32 = take_rows 32 2 (sdrop (16 * 2) (rand_normals s)) \<and> length z32 = 32 \<and>
    (\<forall>r\<in>set z32. length r = 2) \<and>
    dloss s' = Some (half toy_env * (fst rl + fst fl), half toy_env * (snd rl + snd fl)) \<and>
    gloss s' = Some gl)"
proof -
  have a: "0 < n_imgs toy_X" by (simp add: toy_X_def)
  have b: "(0::nat) < epochs" by (simp add: epochs_def)
  have c: "\<exists>s s' final real z16 fake rl fl z32 gl.
    train_loop toy_env toy_X 2 0 toy_built = Inr s \<and>
    train_loop toy_env toy_X 2 (Suc 0) toy_built = Inr s' \<and>
    train_loop toy_env toy_X 2 epochs toy_built = Inr final \<and>
    fold (\<lambda>epoch r. case r of Inl x \<Rightarrow> Inl x | Inr t \<Rightarrow> epoch_body toy_env toy_X 2 epoch t)
         [Suc 0..<epochs] (Inr s') = Inr final \<and>
    length (filter is_D_step (trace final)) = length (filter is_D_step (trace toy_built)) + 60000 \<and>
    length (filter is_GAN_step (trace final)) = length (filter is_GAN_step (trace toy_built)) + 30000 \<and>
    trace s' = trace s @ [PredictG z16 fake,
                          TrainD real (replicate 16 1) rl,
                          TrainD fake (replicate 16 0) fl,
                          TrainGan z32 (replicate 32 1) gl]
                       @ (if (0::nat) mod 100 = 0
                          then [Printed (format_line toy_env 0
                                  (half toy_env * (fst rl + fst fl), half toy_env * (snd rl + snd fl)) gl)]
                          else []) \<and>
    length real = 16 \<and> set real \<subseteq> image_at toy_X ` {..<n_imgs toy_X} \<and>
    z16 = take_rows 16 2 (rand_normals s) \<and>
    fake = map (forward_G toy_env (weights s Gnet)) z16 \<and> length fake = 16 \<and>
    z32 = take_rows 32 2 (sdrop (16 * 2) (rand_normals s)) \<and> length z32 = 32 \<and>
    (\<forall>r\<in>set z32. length r = 2) \<and>
    dloss s' = Some (half toy_env * (fst rl + fst fl), half toy_env * (snd rl + snd fl)) \<and>
    gloss s' = Some gl"
    by (rule epoch_training_steps [OF a b])
  from a b c show ?thesis by (intro conjI)
qed

text \<open>
  C2, as amended. Cell 2 compiles the discriminator while it is trainable, then clears
  its flag and compiles the composite model, and the flag is never set again: it is
  False before and after every call of every epoch. Each of the two direct training
  steps on the discriminator replaces the discriminator's parameters by those the
  optimiser proposes and leaves the generator's as they are; the training step on the
  composite model replaces the generator's parameters and leaves the discriminator's as
  they are. The models are built when the image has at least 8 pixels.
\<close>

theorem discriminator_frozen_for_composite_only:
  fixes env :: "('w, 'o, 'a, 'z, 'm::{plus,times}) env"
  assumes "0 < n_imgs X" and "8 \<le> H * W"
  shows "\<exists>s0 s real fake z32 rl fl gl s2 s3 s4 s5 s6 s'.
    build_models H W w0 o0 ints normals = Inr s0 \<and>
    train_loop env X N e s0 = Inr s \<and>
    train_loop env X N (Suc e) s0 = Inr s' \<and>
    D_collected s0 = {Dnet} \<and> GAN_collected s0 = {Gnet} \<and>
    weights s2 = weights s \<and>
    D_train_on_batch env real (np_ones half_batch_size) s2 = (rl, s3) \<and>
    D_train_on_batch env fake (np_zeros half_batch_size) s3 = (fl, s4) \<and>
    weights s5 = weights s4 \<and>
    full_gan_train_on_batch env z32 (np_ones batch_size) s5 = (gl, s6) \<and>
    weights s' = weights s6 \<and>
    weights s3 Gnet = weights s2 Gnet \<and>
    weights s3 Dnet = fst (fit_D env (weights s2) (optimizer s2) real (np_ones half_batch_size)) Dnet \<and>
    weights s4 Gnet = weights s3 Gnet \<and>
    weights s4 Dnet = fst (fit_D env (weights s3) (optimizer s3) fake (np_zeros half_batch_size)) Dnet \<and>
    weights s6 Dnet = weights s5 Dnet \<and>
    weights s6 Gnet = fst (fit_GAN env (weights s5) (optimizer s5) z32 (np_ones batch_size)) Gnet \<and>
    \<not> trainable s0 Dnet \<and> \<not> trainable s Dnet \<and> \<not> trainable s2 Dnet \<and>
    \<not> trainable s3 Dnet \<and> \<not> trainable s4 Dnet \<and> \<not> trainable s5 Dnet \<and>
    \<not> trainable s6 Dnet \<and> \<not> trainable s' Dnet"
proof -
  define s0 :: "('w, 'o, 'a, 'z, 'm) state" where
    "s0 = compile_full_gan (make_full_gan (set_D_trainable False
            (summary Gnet (compile_D (summary Dnet (initial_state w0 o0 ints normals))))))"
  have b: "build_models H W w0 o0 ints normals = Inr s0"
    by (simp add: build_models_eq [OF assms(2)] s0_def)
  have w0: "D_collected s0 = {Dnet}" "GAN_collected s0 = {Gnet}" "\<not> trainable s0 Dnet"
    by (simp_all add: s0_def built_state)
  obtain s where s: "train_loop env X N e s0 = Inr s"
    using train_loop_total [OF assms(1)] by blast
  have ws: "D_collected s = {Dnet}" "GAN_collected s = {Gnet}" "\<not> trainable s Dnet"
    using train_loop_wiring [OF s] w0 by simp_all
  show ?thesis
  proof (rule epoch_body_steps [OF assms(1), of env N e s])
    fix real fake :: "'a list list" and z32 :: "'z list list" and rl fl gl :: "'m \<times> 'm"
      and s2 s3 s4 s5 s6 s' :: "('w, 'o, 'a, 'z, 'm) state"
    assume run: "epoch_body env X N e s = Inr s'"
      and r3: "generate env half_batch_size N
                 (s\<lparr> rand_ints := sdrop half_batch_size (rand_ints s) \<rparr>) = (fake, s2)"
      and r4: "D_train_on_batch env real (np_ones half_batch_size) s2 = (rl, s3)"
      and r5: "D_train_on_batch env fake (np_zeros half_batch_size) s3 = (fl, s4)"
      and r6: "np_random_normal batch_size N s4 = (z32, s5)"
      and r7: "full_gan_train_on_batch env z32 (np_ones batch_size) s5 = (gl, s6)"
      and s': "s' = report env e (average env rl fl) gl
            (s6\<lparr> dloss := Some (average env rl fl), gloss := Some gl \<rparr>)"
    have next_state: "train_loop env X N (Suc e) s0 = Inr s'"
      by (simp add: train_loop_Suc s run)
    have e2: "s2 = snd (generate env half_batch_size N
                       (s\<lparr> rand_ints := sdrop half_batch_size (rand_ints s) \<rparr>))"
      and e3: "s3 = snd (D_train_on_batch env real (np_ones half_batch_size) s2)"
      and e4: "s4 = snd (D_train_on_batch env fake (np_zeros half_batch_size) s3)"
      and e5: "s5 = snd (np_random_normal batch_size N s4)"
      and e6: "s6 = snd (full_gan_train_on_batch env z32 (np_ones batch_size) s5)"
      using r3 r4 r5 r6 r7 by simp_all
    have f2: "weights s2 = weights s" "D_collected s2 = {Dnet}" "GAN_collected s2 = {Gnet}"
      "\<not> trainable s2 Dnet"
      using ws by (simp_all add: e2 generate_fields)
    have f3: "weights s3 = masked {Dnet} (weights s2)
                 (fst (fit_D env (weights s2) (optimizer s2) real (np_ones half_batch_size)))"
      "D_collected s3 = {Dnet}" "GAN_collected s3 = {Gnet}" "\<not> trainable s3 Dnet"
      using f2 by (simp_all add: e3 D_train_fields)
    have f4: "weights s4 = masked {Dnet} (weights s3)
                 (fst (fit_D env (weights s3) (optimizer s3) fake (np_zeros half_batch_size)))"
      "D_collected s4 = {Dnet}" "GAN_collected s4 = {Gnet}" "\<not> trainable s4 Dnet"
      using f3 by (simp_all add: e4 D_train_fields)
    have f5: "weights s5 = weights s4" "D_collected s5 = {Dnet}" "GAN_collected s5 = {Gnet}"
      "\<not> trainable s5 Dnet"
      using f4 by (simp_all add: e5 np_random_normal_snd)
    have f6: "weights s6 = masked {Gnet} (weights s5)
                 (fst (fit_GAN env (weights s5) (optimizer s5) z32 (np_ones batch_size)))"
      "\<not> trainable s6 Dnet"
      using f5 by (simp_all add: e6 GAN_train_fields)
    have f7: "weights s' = weights s6" "\<not> trainable s' Dnet"
      using f6 by (simp_all add: s' report_fields)
    have g3: "weights s3 Gnet = weights s2 Gnet"
      "weights s3 Dnet = fst (fit_D env (weights s2) (optimizer s2) real (np_ones half_batch_size)) Dnet"
      by (simp_all add: f3(1) masked_def)
    have g4: "weights s4 Gnet = weights s3 Gnet"
      "weights s4 Dnet = fst (fit_D env (weights s3) (optimizer s3) fake (np_zeros half_batch_size)) Dnet"
      by (simp_all add: f4(1) masked_def)
    have g6: "weights s6 Dnet = weights s5 Dnet"
      "weights s6 Gnet = fst (fit_GAN env (weights s5) (optimizer s5) z32 (np_ones batch_size)) Gnet"
      by (simp_all add: f6(1) masked_def)
    have "build_models H W w0 o0 ints normals = Inr s0 \<and>
      train_loop env X N e s0 = Inr s \<and>
      train_loop env X N (Suc e) s0 = Inr s' \<and>
      D_collected s0 = {Dnet} \<and> GAN_collected s0 = {Gnet} \<and>
      weights s2 = weights s \<and>
      D_train_on_batch env real (np_ones half_batch_size) s2 = (rl, s3) \<and>
      D_train_on_batch env fake (np_zeros half_batch_size) s3 = (fl, s4) \<and>
      weights s5 = weights s4 \<and>
      full_gan_train_on_batch env z32 (np_ones batch_size) s5 = (gl, s6) \<and>
      weights s' = weights s6 \<and>
      weights s3 Gnet = weights s2 Gnet \<and>
      weights s3 Dnet = fst (fit_D env (weights s2) (optimizer s2) real (np_ones half_batch_size)) Dnet \<and>
      weights s4 Gnet = weights s3 Gnet \<and>
      weights s4 Dnet = fst (fit_D env (weights s3) (optimizer s3) fake (np_zeros half_batch_size)) Dnet \<and>
      weights s6 Dnet = weights s5 Dnet \<and>
      weights s6 Gnet = fst (fit_GAN env (weights s5) (optimizer s5) z32 (np_ones batch_size)) Gnet \<and>
      \<not> trainable s0 Dnet \<and> \<not> trainable s Dnet \<and> \<not> trainable s2 Dnet \<and>
      \<not> trainable s3 Dnet \<and> \<not> trainable s4 Dnet \<and> \<not> trainable s5 Dnet \<and>
      \<not> trainable s6 Dnet \<and> \<not> trainable s' Dnet"
      using b s next_state w0 ws(3) f2(1,4) r4 r5 f5(1,4) r7 f7 g3 g4 g6 f3(4) f4(4) f6(2)
      by (intro conjI)
    then show ?thesis by (intro exI)
  qed
qed

theorem discriminator_frozen_for_composite_only_witness:
  "0 < n_imgs toy_X \<and> (8::nat) \<le> 2 * 4 \<and>
   (\<exists>s0 s real fake z32 rl fl gl s2 s3 s4 s5 s6 s'.
    build_models 2 4 (\<lambda>k. 0) 0 (sconst 0) (sconst 0) = Inr s0 \<and>
    train_loop toy_env toy_X 2 0 s0 = Inr s \<and>
    train_loop toy_env toy_X 2 (Suc 0) s0 = Inr s' \<and>
    D_collected s0 = {Dnet} \<and> GAN_collected s0 = {Gnet} \<and>
    weights s2 = weights s \<and>
    D_train_on_batch toy_env real (np_ones half_batch_size) s2 = (rl, s3) \<and>
    D_train_on_batch toy_env fake (np_zeros half_batch_size) s3 = (fl, s4) \<and>
    weights s5 = weights s4 \<and>
    full_gan_train_on_batch toy_env z32 (np_ones batch_size) s5 = (gl, s6) \<and>
    weights s' = weights s6 \<and>
    weights s3 Gnet = weights s2 Gnet \<and>
    weights s3 Dnet = fst (fit_D toy_env (weights s2) (optimizer s2) real (np_ones half_batch_size)) Dnet \<and>
    weights s4 Gnet = weights s3 Gnet \<and>
    weights s4 Dnet = fst (fit_D toy_env (weights s3) (optimizer s3) fake (np_zeros half_batch_size)) Dnet \<and>
    weights s6 Dnet = weights s5 Dnet \<and>
    weights s6 Gnet = fst (fit_GAN toy_env (weights s5) (optimizer s5) z32 (np_ones batch_size)) Gnet \<and>
    \<not> trainable s0 Dnet \<and> \<not> trainable s Dnet \<and> \<not> trainable s2 Dnet \<and>
    \<not> trainable s3 Dnet \<and> \<not> trainable s4 Dnet \<and> \<not> trainable s5 Dnet \<and>
    \<not> trainable s6 Dnet \<and> \<not> trainable s' Dnet)"
proof -
  have a: "0 < n_imgs toy_X" by (simp add: toy_X_def)
  have b: "(8::nat) \<le> 2 * 4" by simp
  have c: "\<exists>s0 s real fake z32 rl fl gl s2 s3 s4 s5 s6 s'.
    build_models 2 4 (\<lambda>k. 0) 0 (sconst 0) (sconst 0) = Inr s0 \<and>
    train_loop toy_env toy_X 2 0 s0 = Inr s \<and>
    train_loop toy_env toy_X 2 (Suc 0) s0 = Inr s' \<and>
    D_collected s0 = {Dnet} \<and> GAN_collected s0 = {Gnet} \<and>
    weights s2 = weights s \<and>
    D_train_on_batch toy_env real (np_ones half_batch_size) s2 = (rl, s3) \<and>
    D_train_on_batch toy_env fake (np_zeros half_batch_size) s3 = (fl, s4) \<and>
    weights s5 = weights s4 \<and>
    full_gan_train_on_batch toy_env z32 (np_ones batch_size) s5 = (gl, s6) \<and>
    weights s' = weights s6 \<and>
    weights s3 Gnet = weights s2 Gnet \<and>
    weights s3 Dnet = fst (fit_D toy_env (weights s2) (optimizer s2) real (np_ones half_batch_size)) Dnet \<and>
    weights s4 Gnet = weights s3 Gnet \<and>
    weights s4 Dnet = fst (fit_D toy_env (weights s3) (optimizer s3) fake (np_zeros half_batch_size)) Dnet \<and>
    weights s6 Dnet = weights s5 Dnet \<and>
    weights s6 Gnet = fst (fit_GAN toy_env (weights s5) (optimizer s5) z32 (np_ones batch_size)) Gnet \<and>
    \<not> trainable s0 Dnet \<and> \<not> trainable s Dnet \<and> \<not> trainable s2 Dnet \<and>
    \<not> trainable s3 Dnet \<and> \<not> trainable s4 Dnet \<and> \<not> trainable s5 Dnet \<and>
    \<not> trainable s6 Dnet \<and> \<not> trainable s' Dnet"
    by (rule discriminator_frozen_for_composite_only [OF a b])
  from a b c show ?thesis by (intro conjI)
qed

text \<open>
  C2, as stated, fails: after a direct training step on the discriminator, which did
  update the discriminator's parameters, its flag is still False.
\<close>

theorem flag_after_discriminator_step_counterexample:
  "build_models 2 4 (\<lambda>k. 0) 0 (sconst 0) (sconst 0) = Inr toy_built \<and>
   weights (snd (D_train_on_batch toy_env [replicate 8 (Finite 0)] [1] toy_built)) Dnet = 1 \<and>
   weights (snd (D_train_on_batch toy_env [replicate 8 (Finite 0)] [1] toy_built)) Gnet = 0 \<and>
   \<not> trainable (snd (D_train_on_batch toy_env [replicate 8 (Finite 0)] [1] toy_built)) Dnet"
  by (simp add: build_models_eq built_state toy_built_def D_train_on_batch_def toy_env_def
      masked_def)

text \<open>
  C3. The model builder rejects every image shape whose noise dimension
  \<open>N = H * W div 4\<close> is below 1: it returns an error, before any model is summarised or
  compiled, and so the models are built only when \<open>N\<close> is at least 1. The error is the
  framework's: \<^verbatim>\<open>ValueError\<close> from \<open>Flatten\<close> when the height or the width is 0, and
  otherwise the assertion of a \<open>Dense\<close> layer of the discriminator whose input has width
  0. The models are built exactly when the image has at least 8 pixels.
\<close>

theorem build_models_rejects_small_noise:
  "(noise_res H W < 1 \<longrightarrow>
      (build_models H W w0 o0 ints normals :: pyerr + ('w, 'o, 'a, 'z, 'm) state)
        = Inl (if H = 0 \<or> W = 0 then ValueError else AssertionError)) \<and>
   (\<forall>s :: ('w, 'o, 'a, 'z, 'm) state.
      build_models H W w0 o0 ints normals = Inr s \<longrightarrow> 1 \<le> noise_res H W) \<and>
   ((\<exists>s :: ('w, 'o, 'a, 'z, 'm) state. build_models H W w0 o0 ints normals = Inr s)
      \<longleftrightarrow> 8 \<le> H * W)"
proof -
  let ?b = "build_models H W w0 o0 ints normals :: pyerr + ('w, 'o, 'a, 'z, 'm) state"
  have small: "?b = Inl (if H = 0 \<or> W = 0 then ValueError else AssertionError)"
    if "H * W < 8"
    using that by (rule build_models_small)
  have large: "\<exists>s. ?b = Inr s" if "8 \<le> H * W"
    using that by (simp add: build_models_eq)
  have iff: "(\<exists>s. ?b = Inr s) \<longleftrightarrow> 8 \<le> H * W"
  proof (cases "8 \<le> H * W")
    case True
    with large show ?thesis by simp
  next
    case False
    then have "H * W < 8" by simp
    from small [OF this] False show ?thesis by simp
  qed
  have a: "noise_res H W < 1 \<longrightarrow>
      ?b = Inl (if H = 0 \<or> W = 0 then ValueError else AssertionError)"
  proof
    assume "noise_res H W < 1"
    then have "H * W < 8" by (simp add: noise_res_def res_def)
    then show "?b = Inl (if H = 0 \<or> W = 0 then ValueError else AssertionError)"
      by (rule small)
  qed
  have b: "\<forall>s. ?b = Inr s \<longrightarrow> 1 \<le> noise_res H W"
  proof (intro allI impI)
    fix s assume "?b = Inr s"
    then have "8 \<le> H * W" using iff by blast
    then have "4 \<le> H * W" by simp
    then show "1 \<le> noise_res H W"
      by (simp add: noise_res_def res_def div_greater_zero_iff Suc_le_eq)
  qed
  from a b iff show ?thesis by (intro conjI)
qed

theorem build_models_rejects_small_noise_witness:
  "noise_res 1 1 < 1 \<and>
   build_models 1 1 (\<lambda>k. 0) 0 (sconst 0) (sconst 0)
     = (Inl AssertionError :: pyerr + (nat, nat, npfloat, real, real) state) \<and>
   build_models 2 4 (\<lambda>k. 0) 0 (sconst 0) (sconst 0) = Inr toy_built \<and>
   1 \<le> noise_res 2 4"
proof -
  have a: "noise_res 1 1 < 1" by (simp add: noise_res_def res_def)
  have b: "build_models 2 4 (\<lambda>k. 0) 0 (sconst 0) (sconst 0) = Inr toy_built"
    by (simp add: build_models_eq built_state toy_built_def)
  have "noise_res 1 1 < 1 \<longrightarrow>
      (build_models 1 1 (\<lambda>k. 0) 0 (sconst 0) (sconst 0)
         :: pyerr + (nat, nat, npfloat, real, real) state)
        = Inl (if (1::nat) = 0 \<or> (1::nat) = 0 then ValueError else AssertionError)"
    by (rule build_models_rejects_small_noise [THEN conjunct1])
  with a have c: "build_models 1 1 (\<lambda>k. 0) 0 (sconst 0) (sconst 0)
     = (Inl AssertionError :: pyerr + (nat, nat, npfloat, real, real) state)"
    by simp
  have "\<forall>s :: (nat, nat, npfloat, real, real) state.
      build_models 2 4 (\<lambda>k. 0) 0 (sconst 0) (sconst 0) = Inr s \<longrightarrow> 1 \<le> noise_res 2 4"
    by (rule build_models_rejects_small_noise [THEN conjunct2, THEN conjunct1])
  with b have d: "1 \<le> noise_res 2 4" by blast
  from a c b d show ?thesis by (intro conjI)
qed

text \<open>
  C4. In every epoch \<open>e\<close> below 30000 the script prints one line, after the epoch's
  training calls, when \<open>e\<close> is a multiple of 100, and nothing otherwise, 300 lines in
  all. With \<open>dl\<close> the epoch's average of the two discriminator results, the line is
  the epoch in decimal,
  the text \<open>[D loss:\<close>, the averaged loss under \<^verbatim>\<open>%f\<close>, the text \<open>acc.:\<close>, 100 times
  the averaged accuracy under \<^verbatim>\<open>%.2f\<close> and a percent sign, and the text
  \<open>[G loss:\<close> with the composite model's loss under \<^verbatim>\<open>%f\<close>.
\<close>

theorem diagnostic_line_every_100_epochs:
  fixes env :: "('w, 'o, 'a, 'z, 'm::{plus,times}) env"
  assumes "0 < n_imgs X" and "e < epochs"
  shows "\<exists>s s' final real z16 fake z32 rl fl gl dl.
    train_loop env X N e s0 = Inr s \<and>
    train_loop env X N (Suc e) s0 = Inr s' \<and>
    train_loop env X N epochs s0 = Inr final \<and>
    dl = (half env * (fst rl + fst fl), half env * (snd rl + snd fl)) \<and>
    dloss s' = Some dl \<and> gloss s' = Some gl \<and>
    trace s' = trace s @ [PredictG z16 fake,
                          TrainD real (np_ones half_batch_size) rl,
                          TrainD fake (np_zeros half_batch_size) fl,
                          TrainGan z32 (np_ones batch_size) gl]
      @ (if e mod 100 = 0
         then [Printed (show_nat e @ '' [D loss: '' @ fmt_f env (fst dl) @ '', acc.: ''
                 @ fmt_2f env (hundred env * snd dl) @ ''%] [G loss: ''
                 @ fmt_f env (fst gl) @ '']'')]
         else []) \<and>
    printed_lines (trace s') = printed_lines (trace s) @
      (if e mod 100 = 0
       then [show_nat e @ '' [D loss: '' @ fmt_f env (fst dl) @ '', acc.: ''
               @ fmt_2f env (hundred env * snd dl) @ ''%] [G loss: '' @ fmt_f env (fst gl) @ '']'']
       else []) \<and>
    length (printed_lines (trace final)) = length (printed_lines (trace s0)) + 300"
proof -
  obtain s where s: "train_loop env X N e s0 = Inr s"
    using train_loop_total [OF assms(1)] by blast
  obtain final where final: "train_loop env X N epochs s0 = Inr final"
    using train_loop_total [OF assms(1)] by blast
  have cnt: "length (printed_lines (trace final)) = length (printed_lines (trace s0)) + 300"
    using train_loop_counts [OF final] by (simp add: epochs_def)
  show ?thesis
  proof (rule epoch_body_steps [OF assms(1), of env N e s])
    fix real fake :: "'a list list" and z16 z32 :: "'z list list" and rl fl gl :: "'m \<times> 'm"
      and s6 s' :: "('w, 'o, 'a, 'z, 'm) state"
    assume run: "epoch_body env X N e s = Inr s'"
      and s': "s' = report env e (average env rl fl) gl
            (s6\<lparr> dloss := Some (average env rl fl), gloss := Some gl \<rparr>)"
      and tr: "trace s' = trace s @ [PredictG z16 fake,
                          TrainD real (np_ones half_batch_size) rl,
                          TrainD fake (np_zeros half_batch_size) fl,
                          TrainGan z32 (np_ones batch_size) gl]
                       @ (if e mod 100 = 0
                          then [Printed (format_line env e (average env rl fl) gl)] else [])"
    define dl where "dl = (half env * (fst rl + fst fl), half env * (snd rl + snd fl))"
    have av: "average env rl fl = dl"
      by (simp add: average_def dl_def)
    have next_state: "train_loop env X N (Suc e) s0 = Inr s'"
      by (simp add: train_loop_Suc s run)
    have vars: "dloss s' = Some dl" "gloss s' = Some gl"
      by (simp_all add: s' report_fields av)
    have tr': "trace s' = trace s @ [PredictG z16 fake,
                          TrainD real (np_ones half_batch_size) rl,
                          TrainD fake (np_zeros half_batch_size) fl,
                          TrainGan z32 (np_ones batch_size) gl]
      @ (if e mod 100 = 0
         then [Printed (show_nat e @ '' [D loss: '' @ fmt_f env (fst dl) @ '', acc.: ''
                 @ fmt_2f env (hundred env * snd dl) @ ''%] [G loss: ''
                 @ fmt_f env (fst gl) @ '']'')]
         else [])"
      using tr by (simp add: av format_line_def)
    have out: "printed_lines (trace s') = printed_lines (trace s) @
      (if e mod 100 = 0
       then [show_nat e @ '' [D loss: '' @ fmt_f env (fst dl) @ '', acc.: ''
               @ fmt_2f env (hundred env * snd dl) @ ''%] [G loss: '' @ fmt_f env (fst gl) @ '']'']
       else [])"
      by (simp add: tr' printed_lines_append)
    have "train_loop env X N e s0 = Inr s \<and>
      train_loop env X N (Suc e) s0 = Inr s' \<and>
      train_loop env X N epochs s0 = Inr final \<and>
      dl = (half env * (fst rl + fst fl), half env * (snd rl + snd fl)) \<and>
      dloss s' = Some dl \<and> gloss s' = Some gl \<and>
      trace s' = trace s @ [PredictG z16 fake,
                          TrainD real (np_ones half_batch_size) rl,
                          TrainD fake (np_zeros half_batch_size) fl,
                          TrainGan z32 (np_ones batch_size) gl]
        @ (if e mod 100 = 0
           then [Printed (show_nat e @ '' [D loss: '' @ fmt_f env (fst dl) @ '', acc.: ''
                   @ fmt_2f env (hundred env * snd dl) @ ''%] [G loss: ''
                   @ fmt_f env (fst gl) @ '']'')]
           else []) \<and>
      printed_lines (trace s') = printed_lines (trace s) @
        (if e mod 100 = 0
         then [show_nat e @ '' [D loss: '' @ fmt_f env (fst dl) @ '', acc.: ''
                 @ fmt_2f env (hundred env * snd dl) @ ''%] [G loss: '' @ fmt_f env (fst gl) @ '']'']
         else []) \<and>
      length (printed_lines (trace final)) = length (printed_lines (trace s0)) + 300"
      using s next_state final dl_def vars tr' out cnt by (intro conjI)
    then show ?thesis by (intro exI)
  qed
qed

theorem diagnostic_line_every_100_epochs_witness:
  "0 < n_imgs toy_X \<and> (200::nat) < epochs \<and>
   (\<exists>s s' final real z16 fake z32 rl fl gl dl.
    train_loop toy_env toy_X 2 (200::nat) toy_built = Inr s \<and>
    train_loop toy_env toy_X 2 (Suc (200::nat)) toy_built = Inr s' \<and>
    train_loop toy_env toy_X 2 epochs toy_built = Inr final \<and>
    dl = (half toy_env * (fst rl + fst fl), half toy_env * (snd rl + snd fl)) \<and>
    dloss s' = Some dl \<and> gloss s' = Some gl \<and>
    trace s' = trace s @ [PredictG z16 fake,
                          TrainD real (np_ones half_batch_size) rl,
                          TrainD fake (np_zeros half_batch_size) fl,
                          TrainGan z32 (np_ones batch_size) gl]
      @ (if (200::nat) mod 100 = 0
         then [Printed (show_nat (200::nat) @ '' [D loss: '' @ fmt_f toy_env (fst dl) @ '', acc.: ''
                 @ fmt_2f toy_env (hundred toy_env * snd dl) @ ''%] [G loss: ''
                 @ fmt_f toy_env (fst gl) @ '']'')]
         else []) \<and>
    printed_lines (trace s') = printed_lines (trace s) @
      (if (200::nat) mod 100 = 0
       then [show_nat (200::nat) @ '' [D loss: '' @ fmt_f toy_env (fst dl) @ '', acc.: ''
               @ fmt_2f toy_env (hundred toy_env * snd dl) @ ''%] [G loss: '' @ fmt_f toy_env (fst gl) @ '']'']
       else []) \<and>
    length (printed_lines (trace final)) = length (printed_lines (trace toy_built)) + 300)"
proof -
  have a: "0 < n_imgs toy_X" by (simp add: toy_X_def)
  have b: "(200::nat) < epochs" by (simp add: epochs_def)
  have c: "\<exists>s s' final real z16 fake z32 rl fl gl dl.
    train_loop toy_env toy_X 2 (200::nat) toy_built = Inr s \<and>
    train_loop toy_env toy_X 2 (Suc (200::nat)) toy_built = Inr s' \<and>
    train_loop toy_env toy_X 2 epochs toy_built = Inr final \<and>
    dl = (half toy_env * (fst rl + fst fl), half toy_env * (snd rl + snd fl)) \<and>
    dloss s' = Some dl \<and> gloss s' = Some gl \<and>
    trace s' = trace s @ [PredictG z16 fake,
                          TrainD real (np_ones half_batch_size) rl,
                          TrainD fake (np_zeros half_batch_size) fl,
                          TrainGan z32 (np_ones batch_size) gl]
      @ (if (200::nat) mod 100 = 0
         then [Printed (show_nat (200::nat) @ '' [D loss: '' @ fmt_f toy_env (fst dl) @ '', acc.: ''
                 @ fmt_2f toy_env (hundred toy_env * snd dl) @ ''%] [G loss: ''
                 @ fmt_f toy_env (fst gl) @ '']'')]
         else []) \<and>
    printed_lines (trace s') = printed_lines (trace s) @
      (if (200::nat) mod 100 = 0
       then [show_nat (200::nat) @ '' [D loss: '' @ fmt_f toy_env (fst dl) @ '', acc.: ''
               @ fmt_2f toy_env (hundred toy_env * snd dl) @ ''%] [G loss: '' @ fmt_f toy_env (fst gl) @ '']'']
       else []) \<and>
    length (printed_lines (trace final)) = length (printed_lines (trace toy_built)) + 300"
    by (rule diagnostic_line_every_100_epochs [OF a b])
  from a b c show ?thesis by (intro conjI)
qed

text \<open>
  C5, as amended. Cell 1 normalises the loaded array once, before anything else runs:
  every entry \<open>x\<close> becomes the float nearest to \<open>(x - min) / (max - min)\<close>, with \<open>min\<close>
  and \<open>max\<close> the least and the greatest entry of the whole array (the 8-bit subtractions
  do not wrap), and the models are built for, and the training loop samples from, that
  array. When the array is not constant (\<open>min < max\<close>), every entry of the result, hence
  every pixel of every training image, is a number between 0 and 1.
\<close>

theorem normalise_unit_interval:
  fixes env :: "('w, 'o, npfloat, 'z, 'm::{plus,times}) env"
  assumes "elems raw \<noteq> []" and "np_min (elems raw) < np_max (elems raw)"
  shows "\<exists>X. normalise raw = Inr X \<and>
    n_imgs X = n_imgs raw \<and> n_rows X = n_rows raw \<and> n_cols X = n_cols raw \<and>
    np_min (elems raw) = Min (set (elems raw)) \<and> np_max (elems raw) = Max (set (elems raw)) \<and>
    elems X = map (\<lambda>x. float64 ((real (unat x) - real (unat (np_min (elems raw))))
                    / (real (unat (np_max (elems raw))) - real (unat (np_min (elems raw))))))
                  (elems raw) \<and>
    (\<forall>v\<in>set (elems X). \<exists>r. v = Finite r \<and> 0 \<le> r \<and> r \<le> 1) \<and>
    (\<forall>i. \<forall>v\<in>set (image_at X i). \<exists>r. v = Finite r \<and> 0 \<le> r \<and> r \<le> 1) \<and>
    notebook env raw w0 o0 ints normals =
      (case build_models (n_rows X) (n_cols X) w0 o0 ints normals of
         Inl e \<Rightarrow> Inl e
       | Inr s0 \<Rightarrow>
           (case train_loop env X (noise_res (n_rows X) (n_cols X)) epochs s0 of
              Inl e \<Rightarrow> Inl e
            | Inr s' \<Rightarrow> Inr (final_samples env (noise_res (n_rows X) (n_cols X)) s')))"
proof -
  let ?mn = "np_min (elems raw)" and ?mx = "np_max (elems raw)"
  let ?f = "\<lambda>x. float64 ((real (unat x) - real (unat ?mn)) / (real (unat ?mx) - real (unat ?mn)))"
  define X where "X = \<lparr> n_imgs = n_imgs raw, n_rows = n_rows raw, n_cols = n_cols raw,
       elems = map (\<lambda>x. true_divide (x - ?mn) (?mx - ?mn)) (elems raw) \<rparr>"
  have n: "normalise raw = Inr X"
    using assms(1) by (simp add: normalise_Inr X_def)
  have shape: "n_imgs X = n_imgs raw" "n_rows X = n_rows raw" "n_cols X = n_cols raw"
    by (simp_all add: X_def)
  have el: "elems X = map ?f (elems raw)"
    unfolding X_def using pixel_nonconstant [OF assms(2)] by simp
  have unit: "\<forall>v\<in>set (elems X). \<exists>r. v = Finite r \<and> 0 \<le> r \<and> r \<le> 1"
    using pixel_float_in_unit [OF assms(2)] by (auto simp add: X_def)
  have img: "\<forall>i. \<forall>v\<in>set (image_at X i). \<exists>r. v = Finite r \<and> 0 \<le> r \<and> r \<le> 1"
    using unit image_at_subset [of X] by blast
  have nb: "notebook env raw w0 o0 ints normals =
      (case build_models (n_rows X) (n_cols X) w0 o0 ints normals of
         Inl e \<Rightarrow> Inl e
       | Inr s0 \<Rightarrow>
           (case train_loop env X (noise_res (n_rows X) (n_cols X)) epochs s0 of
              Inl e \<Rightarrow> Inl e
            | Inr s' \<Rightarrow> Inr (final_samples env (noise_res (n_rows X) (n_cols X)) s')))"
    by (simp add: notebook_def n)
  show ?thesis
    using n shape np_min_Min [OF assms(1)] np_max_Max [OF assms(1)] el unit img nb by blast
qed

theorem normalise_unit_interval_witness:
  "elems toy_raw \<noteq> [] \<and> np_min (elems toy_raw) < np_max (elems toy_raw) \<and>
   normalise toy_raw = Inr toy_X"
proof -
  have a: "elems toy_raw \<noteq> []" by (simp add: toy_raw_def)
  have b: "np_min (elems toy_raw) < np_max (elems toy_raw)"
    by (simp add: toy_raw_def np_min_def np_max_def)
  from normalise_unit_interval [OF a b, where env = toy_env and ?w0.0 = "\<lambda>k. 0" and ?o0.0 = 0
      and ints = "sconst 0" and normals = "sconst 0"]
  obtain X where "normalise toy_raw = Inr X" "n_imgs X = n_imgs toy_raw"
    "n_rows X = n_rows toy_raw" "n_cols X = n_cols toy_raw"
    "elems X = map (\<lambda>x. float64 ((real (unat x) - real (unat (np_min (elems toy_raw))))
                    / (real (unat (np_max (elems toy_raw))) - real (unat (np_min (elems toy_raw))))))
                  (elems toy_raw)"
    by blast
  then have "normalise toy_raw = Inr toy_X"
    by (cases X) (simp add: toy_raw_def toy_X_def np_min_def np_max_def
          float64_0 float64_1 float64_fifth)
  with a b show ?thesis by blast
qed

text \<open>
  C5, as stated, fails on a constant array: both entries of the one image of
  \<open>toy_const\<close> are 7, the divisor is 0, and both normalised entries are NaN, not
  numbers in the unit interval.
\<close>

theorem normalise_constant_counterexample:
  "normalise toy_const = Inr \<lparr> n_imgs = 1, n_rows = 1, n_cols = 2, elems = [NaN, NaN] \<rparr>"
  by (simp add: normalise_def toy_const_def np_min_def np_max_def true_divide_def)

text \<open>
  C6, as amended. For every value of the discriminator's parameters and every image of
  the shape it was built for, the forward pass on 32-bit floats returns one value, the
  sigmoid of the last layer's pre-activation \<open>z\<close>. It is NaN when \<open>z\<close> is NaN, and
  otherwise a number of the closed interval from 0 to 1.
\<close>

theorem discriminator_output_closed_unit_interval:
  assumes "weights_of (layers (D_model H W)) (input_shape (D_model H W)) ps"
    and "length x = H * W"
  shows "\<exists>z. forward float32_arith ps ([H, W], x) = ([1], [sigmoid32 z]) \<and>
    (z = NaN \<longrightarrow> sigmoid32 z = NaN) \<and>
    (z \<noteq> NaN \<longrightarrow> (\<exists>r. sigmoid32 z = Finite r \<and> 0 \<le> r \<and> r \<le> 1))"
proof -
  obtain z where z: "forward float32_arith ps ([H, W], x) = ([1], [k_sigmoid float32_arith z])"
    using D_forward_sigmoid [OF assms(1), of float32_arith x] by blast
  have "forward float32_arith ps ([H, W], x) = ([1], [sigmoid32 z]) \<and>
    (z = NaN \<longrightarrow> sigmoid32 z = NaN) \<and>
    (z \<noteq> NaN \<longrightarrow> (\<exists>r. sigmoid32 z = Finite r \<and> 0 \<le> r \<and> r \<le> 1))"
    using z sigmoid32_range [of z] by (simp add: float32_arith_def sigmoid32_NaN)
  then show ?thesis by (rule exI)
qed

theorem discriminator_output_closed_unit_interval_witness:
  "weights_of (layers (D_model 2 4)) (input_shape (D_model 2 4)) toy_D_weights \<and>
   length (image_at toy_X 1) = 2 * 4 \<and>
   (\<exists>z. forward float32_arith toy_D_weights ([2, 4], image_at toy_X 1) = ([1], [sigmoid32 z]) \<and>
    (z = NaN \<longrightarrow> sigmoid32 z = NaN) \<and>
    (z \<noteq> NaN \<longrightarrow> (\<exists>r. sigmoid32 z = Finite r \<and> 0 \<le> r \<and> r \<le> 1)))"
proof -
  have a: "weights_of (layers (D_model 2 4)) (input_shape (D_model 2 4)) toy_D_weights"
    by (rule toy_D_weights_built)
  have b: "length (image_at toy_X 1) = 2 * 4" unfolding toy_image_1 by simp
  have c: "\<exists>z. forward float32_arith toy_D_weights ([2, 4], image_at toy_X 1) = ([1], [sigmoid32 z]) \<and>
    (z = NaN \<longrightarrow> sigmoid32 z = NaN) \<and>
    (z \<noteq> NaN \<longrightarrow> (\<exists>r. sigmoid32 z = Finite r \<and> 0 \<le> r \<and> r \<le> 1))"
    by (rule discriminator_output_closed_unit_interval [OF a b])
  from a b c show ?thesis by (intro conjI)
qed

text \<open>
  C6, as stated, fails: with the parameters \<open>toy_D_weights\<close>, all finite, the last
  layer's pre-activation on an image of 2 by 4 pixels is 200, \<open>exp (- 200)\<close> is rounded
  to 0, and the output is 1, which is not inside the open interval.
\<close>

theorem discriminator_output_saturates_counterexample:
  "weights_of (layers (D_model 2 4)) (input_shape (D_model 2 4)) toy_D_weights \<and>
   length (image_at toy_X 1) = 2 * 4 \<and>
   forward float32_arith toy_D_weights ([2, 4], image_at toy_X 1) = ([1], [Finite 1]) \<and>
   \<not> (\<exists>r. Finite 1 = Finite r \<and> 0 < r \<and> r < 1)"
proof -
  have b: "length (image_at toy_X 1) = 2 * 4" unfolding toy_image_1 by simp
  have d: "\<not> (\<exists>r. Finite 1 = Finite r \<and> 0 < r \<and> r < 1)" by simp
  from toy_D_weights_built b toy_D_forward d show ?thesis by (intro conjI)
qed

text \<open>
  C7. For every value of the generator's parameters and every noise vector of the
  noise dimension, the forward pass of the generator returns a sample of the image
  shape, height by width, with as many entries; so every one of the \<open>k\<close> images a call of
  \<open>predict\<close> in the notebook returns has that many entries.
\<close>

theorem generator_output_shape:
  fixes env :: "('v built list, 'o, 'v, 'v, 'm) env"
  assumes "forward_G env = forward_sample ar"
    and "weights_of (layers (G_model H W)) (input_shape (G_model H W)) (weights s Gnet)"
    and "length z = noise_res H W"
  shows "input_shape (G_model H W) = [noise_res H W] \<and>
    output_shape (G_model H W) = Inr [H, W] \<and>
    fst (forward ar (weights s Gnet) ([noise_res H W], z)) = [H, W] \<and>
    length (snd (forward ar (weights s Gnet) ([noise_res H W], z))) = H * W \<and>
    length (forward_G env (weights s Gnet) z) = H * W \<and>
    length (fst (generate env k (noise_res H W) s)) = k \<and>
    list_all (\<lambda>img. length img = H * W) (fst (generate env k (noise_res H W) s))"
proof -
  have sh: "fst (forward ar (weights s Gnet) ([noise_res H W], z)) = [H, W]"
    "length (snd (forward ar (weights s Gnet) ([noise_res H W], z))) = H * W"
    using G_forward_shape [OF assms(2,3), of ar] by simp_all
  have one: "length (forward_G env (weights s Gnet) z) = H * W"
    using sh(2) by (simp add: assms(1) forward_sample_def assms(3))
  have row: "length (forward_G env (weights s Gnet) r) = H * W"
    if "r \<in> set (take_rows k (noise_res H W) (rand_normals s))" for r
  proof -
    have l: "length r = noise_res H W" by (rule take_rows_row_length [OF that])
    from G_forward_shape [OF assms(2) l, of ar] show ?thesis
      by (simp add: assms(1) forward_sample_def l)
  qed
  have all: "list_all (\<lambda>img. length img = H * W) (fst (generate env k (noise_res H W) s))"
    using row by (simp add: generate_fields list_all_iff)
  have len: "length (fst (generate env k (noise_res H W) s)) = k"
    by (simp add: generate_fields length_take_rows)
  show ?thesis
    using G_input_shape G_output_shape [OF weights_of_G_size [OF assms(2)]] sh one len all
    by (intro conjI)
qed

theorem generator_output_shape_witness:
  "forward_G toy_keras_env = forward_sample float32_arith \<and>
   weights_of (layers (G_model 2 4)) (input_shape (G_model 2 4)) (weights toy_keras_built Gnet) \<and>
   length [Finite 0, Finite 0] = noise_res 2 4 \<and>
   fst (forward float32_arith toy_G_weights ([2], [Finite 0, Finite 0])) = [2, 4] \<and>
   length (snd (forward float32_arith toy_G_weights ([2], [Finite 0, Finite 0]))) = 8 \<and>
   length (fst (generate toy_keras_env 9 2 toy_keras_built)) = 9 \<and>
   list_all (\<lambda>img. length img = 8) (fst (generate toy_keras_env 9 2 toy_keras_built))"
proof -
  have a: "forward_G toy_keras_env = forward_sample float32_arith"
    by (simp add: toy_keras_env_def)
  have w: "weights toy_keras_built Gnet = toy_G_weights" by (simp add: toy_keras_built_def)
  have b: "weights_of (layers (G_model 2 4)) (input_shape (G_model 2 4))
             (weights toy_keras_built Gnet)"
    unfolding w by (rule toy_G_weights_built)
  have n: "noise_res 2 4 = 2" by (simp add: noise_res_def res_def)
  have c: "length [Finite 0, Finite 0] = noise_res 2 4" by (simp add: n)
  from generator_output_shape [OF a b c, of 9] a b c show ?thesis
    by (simp add: w n)
qed

text \<open>
  C8. Drawing noise and running the generator's forward pass, as the loop does for the
  16 generated images of an epoch and cell 4 does for the 9 final samples, changes no
  parameter of either network, nor the optimiser's state, nor what the compiled models
  update; the images are computed from the generator's current parameters.
\<close>

theorem predict_changes_no_parameter:
  "weights (snd (generate env k N s)) = weights s \<and>
   optimizer (snd (generate env k N s)) = optimizer s \<and>
   trainable (snd (generate env k N s)) = trainable s \<and>
   D_collected (snd (generate env k N s)) = D_collected s \<and>
   GAN_collected (snd (generate env k N s)) = GAN_collected s \<and>
   fst (generate env k N s) = map (forward_G env (weights s Gnet)) (take_rows k N (rand_normals s)) \<and>
   length (fst (generate env half_batch_size N s)) = 16 \<and>
   final_samples env N s = generate env 9 N s \<and>
   length (fst (final_samples env N s)) = 9 \<and>
   weights (snd (final_samples env N s)) = weights s \<and>
   optimizer (snd (final_samples env N s)) = optimizer s"
  by (simp add: generate_fields final_samples_def length_take_rows half_batch_size_16)

theorem predict_changes_no_parameter_witness:
  "weights (snd (final_samples toy_env 2 toy_built)) = (\<lambda>k. 0) \<and>
   optimizer (snd (final_samples toy_env 2 toy_built)) = 0 \<and>
   length (fst (final_samples toy_env 2 toy_built)) = 9"
proof -
  have "weights (snd (final_samples toy_env 2 toy_built)) = weights toy_built \<and>
        optimizer (snd (final_samples toy_env 2 toy_built)) = optimizer toy_built \<and>
        length (fst (final_samples toy_env 2 toy_built)) = 9"
    using predict_changes_no_parameter [of toy_env 9 2 toy_built] by blast
  then show ?thesis by (simp add: toy_built_def)
qed

text \<open>
  C9. Cell 1 has no guard and no error branch for a constant array: on every non-empty
  array it returns. All entries are equal exactly when \<open>max = min\<close>, which is exactly when
  the divisor is 0, and then every normalised entry is NaN (0 divided by 0). The
  normalised entries are all finite exactly when \<open>min < max\<close>.
\<close>

theorem normalise_finite_iff_nonconstant:
  assumes "elems raw \<noteq> []"
  shows "\<exists>X. normalise raw = Inr X \<and>
    ((\<forall>x\<in>set (elems raw). \<forall>y\<in>set (elems raw). x = y)
       \<longleftrightarrow> np_max (elems raw) = np_min (elems raw)) \<and>
    (np_max (elems raw) - np_min (elems raw) = 0
       \<longleftrightarrow> np_max (elems raw) = np_min (elems raw)) \<and>
    (np_max (elems raw) = np_min (elems raw) \<longrightarrow> (\<forall>v\<in>set (elems X). v = NaN)) \<and>
    (np_max (elems raw) \<noteq> np_min (elems raw)
       \<longleftrightarrow> np_min (elems raw) < np_max (elems raw)) \<and>
    ((\<forall>v\<in>set (elems X). \<exists>r. v = Finite r)
       \<longleftrightarrow> np_min (elems raw) < np_max (elems raw))"
proof -
  let ?mn = "np_min (elems raw)" and ?mx = "np_max (elems raw)"
  define X where "X = \<lparr> n_imgs = n_imgs raw, n_rows = n_rows raw, n_cols = n_cols raw,
       elems = map (\<lambda>x. true_divide (x - ?mn) (?mx - ?mn)) (elems raw) \<rparr>"
  have n: "normalise raw = Inr X"
    using assms by (simp add: normalise_Inr X_def)
  have el: "elems X = map (\<lambda>x. true_divide (x - ?mn) (?mx - ?mn)) (elems raw)"
    by (simp add: X_def)
  have le: "?mn \<le> ?mx" by (rule np_min_le_max [OF assms])
  have ne: "?mx \<noteq> ?mn \<longleftrightarrow> ?mn < ?mx" using le by auto
  have nan: "\<forall>v\<in>set (elems X). v = NaN" if "?mx = ?mn"
    unfolding el using pixel_constant [OF that] by auto
  have fin: "\<forall>v\<in>set (elems X). \<exists>r. v = Finite r" if "?mn < ?mx"
    unfolding el using pixel_float_in_unit [OF that] by auto
  have conv: "?mn < ?mx" if "\<forall>v\<in>set (elems X). \<exists>r. v = Finite r"
  proof (rule ccontr)
    assume "\<not> ?mn < ?mx"
    then have eq: "?mx = ?mn" using le by auto
    obtain x where "x \<in> set (elems raw)" using assms by (cases "elems raw") auto
    then have "true_divide (x - ?mn) (?mx - ?mn) \<in> set (elems X)" by (simp add: el)
    with nan [OF eq] that show False by force
  qed
  show ?thesis
    using n constant_iff [OF assms] nan ne fin conv by (intro exI [of _ X]) auto
qed

theorem normalise_finite_iff_nonconstant_witness:
  "elems toy_const \<noteq> [] \<and> np_max (elems toy_const) = np_min (elems toy_const) \<and>
   normalise toy_const = Inr \<lparr> n_imgs = 1, n_rows = 1, n_cols = 2, elems = [NaN, NaN] \<rparr> \<and>
   \<not> np_min (elems toy_const) < np_max (elems toy_const)"
  using normalise_finite_iff_nonconstant [of toy_const]
  by (simp add: normalise_def toy_const_def np_min_def np_max_def true_divide_def)

text \<open>
  C10. The discriminator's flag is assigned once, to False, in cell 2: after the
  discriminator is compiled and before the composite model is made and compiled. Nothing
  the loop or cell 4 does after that is an assignment to it, and it is False after any
  number of epochs and after the final samples. The models are built when the image has
  at least 8 pixels.
\<close>

theorem D_trainable_assigned_once:
  fixes env :: "('w, 'o, 'a, 'z, 'm::{plus,times}) env"
  assumes "0 < n_imgs X" and "8 \<le> H * W"
  shows "\<exists>s0 s rest.
    build_models H W w0 o0 ints normals = Inr s0 \<and>
    train_loop env X N n s0 = Inr s \<and>
    trace s0 = [Summary Dnet, CompileD, Summary Gnet, SetTrainableD False, BuildGan, CompileGan] \<and>
    GAN_collected s0 = {Gnet} \<and>
    trace (snd (final_samples env N s)) = trace s0 @ rest \<and>
    filter is_assignment rest = [] \<and>
    \<not> trainable s0 Dnet \<and> \<not> trainable s Dnet \<and>
    \<not> trainable (snd (final_samples env N s)) Dnet"
proof -
  define s0 :: "('w, 'o, 'a, 'z, 'm) state" where
    "s0 = compile_full_gan (make_full_gan (set_D_trainable False
            (summary Gnet (compile_D (summary Dnet (initial_state w0 o0 ints normals))))))"
  have b: "build_models H W w0 o0 ints normals = Inr s0"
    by (simp add: build_models_eq [OF assms(2)] s0_def)
  have w0: "trace s0 = [Summary Dnet, CompileD, Summary Gnet, SetTrainableD False, BuildGan, CompileGan]"
    "GAN_collected s0 = {Gnet}" "\<not> trainable s0 Dnet"
    by (simp_all add: s0_def built_state)
  obtain s where s: "train_loop env X N n s0 = Inr s"
    using train_loop_total [OF assms(1)] by blast
  have ws: "\<not> trainable s Dnet"
    using train_loop_wiring [OF s] w0 by simp
  obtain rest where rest: "trace s = trace s0 @ rest" "filter is_assignment rest = []"
    using train_loop_no_assignment [OF s] by blast
  define rest' where "rest' = rest @ [PredictG (take_rows 9 N (rand_normals s))
                                        (fst (generate env 9 N s))]"
  have fin: "trace (snd (final_samples env N s)) = trace s0 @ rest'"
    "filter is_assignment rest' = []"
    "\<not> trainable (snd (final_samples env N s)) Dnet"
    using rest ws by (simp_all add: final_samples_def generate_fields rest'_def)
  have "build_models H W w0 o0 ints normals = Inr s0 \<and>
    train_loop env X N n s0 = Inr s \<and>
    trace s0 = [Summary Dnet, CompileD, Summary Gnet, SetTrainableD False, BuildGan, CompileGan] \<and>
    GAN_collected s0 = {Gnet} \<and>
    trace (snd (final_samples env N s)) = trace s0 @ rest' \<and>
    filter is_assignment rest' = [] \<and>
    \<not> trainable s0 Dnet \<and> \<not> trainable s Dnet \<and>
    \<not> trainable (snd (final_samples env N s)) Dnet"
    using b s w0 fin ws by (intro conjI)
  then show ?thesis by (intro exI)
qed

theorem D_trainable_assigned_once_witness:
  "0 < n_imgs toy_X \<and> (8::nat) \<le> 2 * 4 \<and>
   (\<exists>s0 s rest.
    build_models 2 4 (\<lambda>k. 0) 0 (sconst 0) (sconst 0) = Inr s0 \<and>
    train_loop toy_env toy_X 2 epochs s0 = Inr s \<and>
    trace s0 = [Summary Dnet, CompileD, Summary Gnet, SetTrainableD False, BuildGan, CompileGan] \<and>
    GAN_collected s0 = {Gnet} \<and>
    trace (snd (final_samples toy_env 2 s)) = trace s0 @ rest \<and>
    filter is_assignment rest = [] \<and>
    \<not> trainable s0 Dnet \<and> \<not> trainable s Dnet \<and>
    \<not> trainable (snd (final_samples toy_env 2 s)) Dnet)"
proof -
  have a: "0 < n_imgs toy_X" by (simp add: toy_X_def)
  have b: "(8::nat) \<le> 2 * 4" by simp
  have c: "\<exists>s0 s rest.
    build_models 2 4 (\<lambda>k. 0) 0 (sconst 0) (sconst 0) = Inr s0 \<and>
    train_loop toy_env toy_X 2 epochs s0 = Inr s \<and>
    trace s0 = [Summary Dnet, CompileD, Summary Gnet, SetTrainableD False, BuildGan, CompileGan] \<and>
    GAN_collected s0 = {Gnet} \<and>
    trace (snd (final_samples toy_env 2 s)) = trace s0 @ rest \<and>
    filter is_assignment rest = [] \<and>
    \<not> trainable s0 Dnet \<and> \<not> trainable s Dnet \<and>
    \<not> trainable (snd (final_samples toy_env 2 s)) Dnet"
    by (rule D_trainable_assigned_once [OF a b])
  from a b c show ?thesis by (intro conjI)
qed

end
